theory Spec2Isabelle
  imports Complex_Main "HOL-Library.Char_ord" "HOL-Library.List_Lexorder"
begin

section \<open>Scope of the model\<close>

text \<open>
  The theory embeds the transfer engine of the wallet service
  (\<^verbatim>\<open>services/wallet.service.ts\<close>), its idempotency cache (\<^verbatim>\<open>utils/idempotency.ts\<close>), the
  controller of \<^verbatim>\<open>POST /transactions\<close> (\<^verbatim>\<open>controllers/wallet.controller.ts\<close>) and the
  transaction history. Every function takes the world it runs in and returns the world it
  leaves; a thrown error is the left summand of the result.

  \<^item> Requests run one after another. What concurrent transactions cause is visible to a
    request only as an error signalled by the store at the locking read; the world holds
    the signals still to come.
  \<^item> A JavaScript number is an IEEE double, an infinity or \<^verbatim>\<open>NaN\<close>; sums and differences
    are rounded to the nearest double, and a number written to a \<^verbatim>\<open>DECIMAL(18,4)\<close> column is
    rounded to four decimals.
  \<^item> The \<^verbatim>\<open>CHECK\<close>, \<^verbatim>\<open>UNIQUE\<close> and length constraints of \<^verbatim>\<open>db_init.sql\<close> on the columns the
    transfer writes reject a write with an error of the store.
  \<^item> Identifiers of users and assets are taken to be well-formed UUIDs; what the store
    answers to an identifier that is not one is not modelled.
  \<^item> Logging, time stamps of responses and the expiry of cache entries are left out.
\<close>

section \<open>Errors thrown by the wallet service\<close>

text \<open>
  The values the service throws (\<^verbatim>\<open>errors/app-error.ts\<close> and \<^verbatim>\<open>services/wallet.service.ts\<close>):
  \<^verbatim>\<open>ValidationError\<close> (an \<^verbatim>\<open>AppError\<close> with status 400), \<^verbatim>\<open>NotFoundError\<close> (status 404), a plain
  \<^verbatim>\<open>new Error(message)\<close>, and an error raised by the database driver, which carries the
  Postgres condition in its \<^verbatim>\<open>code\<close> property. The \<^verbatim>\<open>context\<close> objects are not modelled.
\<close>

datatype js_error =
    ValidationError string
  | NotFoundError string
  | Error string
  | StoreError "string option" string

fun message :: "js_error \<Rightarrow> string" where
  "message (ValidationError m) = m"
| "message (NotFoundError m) = m"
| "message (Error m) = m"
| "message (StoreError c m) = m"

text \<open>\<^verbatim>\<open>(error as any)?.code\<close>: only a driver error has the property.\<close>

fun code :: "js_error \<Rightarrow> string option" where
  "code (StoreError c m) = c"
| "code e = None"

section \<open>Bounded retry on contention\<close>

definition RETRYABLE_PG_CODES :: "string set" where
  "RETRYABLE_PG_CODES = {''40P01'', ''55P03''}"

text \<open>\<^verbatim>\<open>pgCode && RETRYABLE_PG_CODES.has(pgCode)\<close>\<close>

definition isRetryable :: "js_error \<Rightarrow> bool" where
  "isRetryable error =
     (case code error of
        None \<Rightarrow> False
      | Some pgCode \<Rightarrow> pgCode \<noteq> [] \<and> pgCode \<in> RETRYABLE_PG_CODES)"

text \<open>
  \<^verbatim>\<open>withRetry\<close>: the \<^verbatim>\<open>for\<close> loop over \<^verbatim>\<open>attempt\<close>. The callback \<open>fn\<close> acts on a state of
  any type and either returns (\<open>Inr\<close>) or throws (\<open>Inl\<close>). The result carries, besides the
  outcome and the final state, the list of the delays slept, in milliseconds and in order.
\<close>

function withRetry_loop ::
  "('s \<Rightarrow> (js_error + 'a) \<times> 's) \<Rightarrow> nat \<Rightarrow> nat \<Rightarrow> 's \<Rightarrow> (js_error + 'a) \<times> 's \<times> nat list"
where
  "withRetry_loop fn maxAttempts attempt s =
     (if attempt \<le> maxAttempts then
        (case fn s of
           (Inr v, s') \<Rightarrow> (Inr v, s', [])
         | (Inl error, s') \<Rightarrow>
             if isRetryable error \<and> attempt < maxAttempts then
               (let delayMs = 2 ^ attempt * 100;
                    (r, s'', delays) = withRetry_loop fn maxAttempts (attempt + 1) s'
                in (r, s'', delayMs # delays))
             else (Inl error, s', []))
      else (Inl (Error ''Max retry attempts exceeded''), s, []))"
  by pat_completeness auto
termination
  by (relation "measure (\<lambda>(fn, maxAttempts, attempt, s). maxAttempts + 1 - attempt)") auto

definition withRetry ::
  "('s \<Rightarrow> (js_error + 'a) \<times> 's) \<Rightarrow> 's \<Rightarrow> (js_error + 'a) \<times> 's \<times> nat list" where
  "withRetry fn s = withRetry_loop fn 3 1 s"

text \<open>
  An observer of the callback: \<open>traced fn\<close> behaves as \<open>fn\<close> on the second component of the
  state and appends the outcome of every invocation to the first.
\<close>

definition traced ::
  "('s \<Rightarrow> (js_error + 'a) \<times> 's) \<Rightarrow>
   (js_error + 'a) list \<times> 's \<Rightarrow> (js_error + 'a) \<times> (js_error + 'a) list \<times> 's" where
  "traced fn = (\<lambda>(tr, s). case fn s of (r, s') \<Rightarrow> (r, tr @ [r], s'))"

text \<open>A callback that replays a script of outcomes, one per invocation.\<close>

definition scripted :: "(js_error + nat) list \<Rightarrow> (js_error + nat) \<times> (js_error + nat) list" where
  "scripted s = (case s of [] \<Rightarrow> (Inr 0, []) | r # rs \<Rightarrow> (r, rs))"

section \<open>Canonical lock order\<close>

text \<open>
  \<^verbatim>\<open>const [lockA, lockB] = [fromUserId, toUserId].sort()\<close>. The default comparison of
  \<^verbatim>\<open>Array.prototype.sort\<close> orders strings by their code units, which is the lexicographic
  order on character lists; the destructuring reads positions 0 and 1 of the sorted
  two-element array.
\<close>

definition lock_order :: "string \<Rightarrow> string \<Rightarrow> string \<times> string" where
  "lock_order fromUserId toUserId =
     (let sorted_ids = sort [fromUserId, toUserId] in (sorted_ids ! 0, sorted_ids ! 1))"

section \<open>JavaScript numbers and decimal columns\<close>

text \<open>
  A JavaScript \<^verbatim>\<open>number\<close> is an IEEE 754 double: a finite value, an infinity or \<^verbatim>\<open>NaN\<close>. A
  finite double is represented by the rational it denotes. The functions of this section
  give the three conversions the service relies on: rounding a real result to the nearest
  double, printing a double (\<^verbatim>\<open>toString\<close>), and storing a number in a \<^verbatim>\<open>DECIMAL(18,4)\<close> column.
  The amount \<open>Fin a\<close> of a call may be any rational; the amounts a request can carry are the
  doubles among them, such as \<open>round_to_double (999 / 10)\<close> for the literal \<^verbatim>\<open>99.9\<close>.
\<close>

datatype number = Fin rat | PosInfinity | NegInfinity | NaN

text \<open>The number of binary digits and of decimal digits of a positive integer.\<close>

function bit_length :: "int \<Rightarrow> int" where
  "bit_length n = (if n \<le> 0 then 0 else 1 + bit_length (n div 2))"
  by pat_completeness auto
termination
  by (relation "measure nat") auto

function decimal_digits :: "int \<Rightarrow> int" where
  "decimal_digits n = (if n < 10 then 1 else 1 + decimal_digits (n div 10))"
  by pat_completeness auto
termination
  by (relation "measure nat") auto

definition pow2 :: "int \<Rightarrow> rat" where
  "pow2 e = (if 0 \<le> e then 2 ^ nat e else 1 / 2 ^ nat (- e))"

definition pow10 :: "int \<Rightarrow> rat" where
  "pow10 e = (if 0 \<le> e then 10 ^ nat e else 1 / 10 ^ nat (- e))"

text \<open>Rounding to the nearest integer, a tie to the even one.\<close>

definition round_half_even :: "rat \<Rightarrow> int" where
  "round_half_even x =
     (let f = \<lfloor>x\<rfloor>; d = x - of_int f
      in if d < 1 / 2 then f else if 1 / 2 < d then f + 1 else if even f then f else f + 1)"

text \<open>For \<open>x > 0\<close>, the exponent \<open>e\<close> with \<open>2 ^ e \<le> x < 2 ^ (e + 1)\<close>.\<close>

definition binary_exponent :: "rat \<Rightarrow> int" where
  "binary_exponent x =
     (case quotient_of x of
        (p, q) \<Rightarrow>
          (let e0 = bit_length p - bit_length q in if pow2 e0 \<le> x then e0 else e0 - 1))"

text \<open>
  The double nearest to a rational (round to nearest, ties to even): 53 significant bits,
  with the fixed spacing \<open>2 ^ - 1074\<close> below \<open>2 ^ - 1022\<close>. Overflow to an infinity, which
  starts near \<open>1.8 * 10 ^ 308\<close>, is not modelled: the values rounded here come from
  \<^verbatim>\<open>DECIMAL(18,4)\<close> columns, which hold less than \<open>10 ^ 14\<close>, and from amounts of at most
  \<open>MAX_AMOUNT\<close>.
\<close>

definition round_to_double :: "rat \<Rightarrow> rat" where
  "round_to_double x =
     (if x = 0 then 0
      else (let m = \<bar>x\<bar>;
                e = max (binary_exponent m) (- 1022);
                ulp = pow2 (e - 52)
            in sgn x * of_int (round_half_even (m / ulp)) * ulp))"

text \<open>
  \<^verbatim>\<open>Number(decimal)\<close>: Prisma hands a decimal column over as a decimal object, and \<^verbatim>\<open>Number\<close>
  reads its digits as a numeric literal, which denotes the nearest double.
\<close>

definition Number :: "rat \<Rightarrow> rat" where
  "Number d = round_to_double d"

text \<open>For \<open>x > 0\<close>, the exponent \<open>n\<close> with \<open>10 ^ (n - 1) \<le> x < 10 ^ n\<close>.\<close>

definition decimal_exponent :: "rat \<Rightarrow> int" where
  "decimal_exponent x =
     (if 1 \<le> x then decimal_digits \<lfloor>x\<rfloor>
      else (let m = decimal_digits \<lfloor>1 / x\<rfloor>
            in if x = pow10 (1 - m) then 2 - m else 1 - m))"

text \<open>
  \<^verbatim>\<open>Number.prototype.toString\<close> prints the decimal with the fewest significant digits that
  denotes the double, and of those the one closest to it. A printed string is represented
  by the rational its digits spell. \<open>candidate x n k\<close> is the decimal of \<open>k\<close> significant
  digits for the double \<open>x > 0\<close> with decimal exponent \<open>n\<close>, if one denotes \<open>x\<close>: it can only
  be \<open>x\<close> cut to \<open>k\<close> digits or the next decimal above.
\<close>

definition candidate :: "rat \<Rightarrow> int \<Rightarrow> nat \<Rightarrow> rat option" where
  "candidate x n k =
     (let scale = pow10 (n - int k);
          lo = of_int \<lfloor>x / scale\<rfloor> * scale;
          hi = of_int \<lceil>x / scale\<rceil> * scale;
          lo_ok = (round_to_double lo = x);
          hi_ok = (round_to_double hi = x)
      in if lo_ok \<and> hi_ok then
           Some (if x - lo < hi - x then lo
                 else if hi - x < x - lo then hi
                 else if even \<lfloor>x / scale\<rfloor> then lo else hi)
         else if lo_ok then Some lo
         else if hi_ok then Some hi
         else None)"

fun shortest :: "rat \<Rightarrow> int \<Rightarrow> nat list \<Rightarrow> rat" where
  "shortest x n [] = x"
| "shortest x n (k # ks) =
     (case candidate x n k of Some c \<Rightarrow> c | None \<Rightarrow> shortest x n ks)"

definition toString :: "rat \<Rightarrow> rat" where
  "toString x =
     (if x = 0 then 0 else sgn x * shortest \<bar>x\<bar> (decimal_exponent \<bar>x\<bar>) [1..<18])"

text \<open>
  Writing a number to a \<^verbatim>\<open>DECIMAL(18,4)\<close> column: Prisma sends the digits the number prints,
  and PostgreSQL rounds them to four decimals, a tie away from zero, and rejects a value
  that needs more than fourteen digits before the point.
\<close>

definition round_half_away :: "rat \<Rightarrow> int" where
  "round_half_away x = (if 0 \<le> x then \<lfloor>x + 1 / 2\<rfloor> else - \<lfloor>- x + 1 / 2\<rfloor>)"

definition to_decimal4 :: "rat \<Rightarrow> rat" where
  "to_decimal4 x = of_int (round_half_away (x * 10000)) / 10000"

definition decimal_18_4 :: "rat \<Rightarrow> js_error + rat" where
  "decimal_18_4 x =
     (let d = to_decimal4 (toString x)
      in if 10 ^ 14 \<le> \<bar>d\<bar> then Inl (StoreError (Some ''22003'') ''numeric field overflow'')
         else Inr d)"

section \<open>The persistent store\<close>

text \<open>
  Modelled from the spec: \<^verbatim>\<open>types/enums.ts\<close> is not among the sources; the transaction
  types are the three of the data model, \<^verbatim>\<open>type \<in> {TOP_UP, BONUS, SPEND}\<close>.
\<close>

datatype TransactionType = TOP_UP | BONUS | SPEND

datatype EntryType = DEBIT | CREDIT

text \<open>
  The tables of \<^verbatim>\<open>db_init.sql\<close>. Identifiers of users, assets and wallets are strings
  (UUIDs); the identifiers the database generates for new transactions and ledger entries
  (\<^verbatim>\<open>gen_random_uuid()\<close>) are drawn from a counter. A decimal column holds a rational;
  timestamps are natural numbers.
\<close>

record user =
  u_id :: string
  u_name :: string
  u_email :: string

record asset =
  a_id :: string
  a_symbol :: string
  a_name :: string

record wallet =
  w_id :: string
  w_user_id :: string
  w_asset_id :: string
  w_balance :: rat

record transaction_row =
  t_id :: nat
  t_idempotency_key :: string
  t_from_wallet_id :: string
  t_to_wallet_id :: string
  t_amount :: rat
  t_type :: TransactionType
  t_status :: string
  t_created_at :: nat

record ledger_entry =
  l_id :: nat
  l_transaction_id :: nat
  l_wallet_id :: string
  l_entry_type :: EntryType
  l_amount :: rat
  l_balance_after :: rat
  l_created_at :: nat

record store =
  users :: "user list"
  assets :: "asset list"
  wallets :: "wallet list"
  transactions :: "transaction_row list"
  ledger_entries :: "ledger_entry list"

text \<open>The statements the service sends to the store, in the order it sends them.\<close>

datatype ps_stmt =
    UserFindUniqueByEmail string
  | UserFindUniqueById string
  | AssetFindUnique string
  | Begin
  | Commit
  | Rollback
  | SetLockTimeout
  | TransactionFindUnique string
  | SelectWalletsForUpdate string string string
  | WalletFindUnique string string
  | WalletUpdate string rat
  | TransactionCreate string
  | LedgerEntryCreateMany nat
  | TransactionCount
  | TransactionFindMany

text \<open>
  The value stored under \<^verbatim>\<open>idempotency:<key>\<close> in the fast idempotency cache
  (\<^verbatim>\<open>CachedResponse\<close> of \<^verbatim>\<open>utils/idempotency.ts\<close>); the JSON encoding and decoding of the value is
  the identity. A balance string is represented by the rational its digits spell.
\<close>

datatype CachedResponse =
    PROCESSING "string option"
  | SUCCESS nat rat
  | FAILED string

text \<open>
  Everything a request can read or change: the tables; what the store will signal at the
  successive locking reads (\<open>None\<close>: the locks are granted; an exhausted list grants them
  too); the statements sent so far; the source of generated identifiers; the clock of
  \<^verbatim>\<open>NOW()\<close>; the idempotency cache; and the memoised treasury id of the service module.
\<close>

record world =
  db :: store
  faults :: "js_error option list"
  ps_log :: "ps_stmt list"
  next_id :: nat
  clock :: nat
  fic :: "string \<Rightarrow> CachedResponse option"
  treasuryId :: "string option"

definition log_stmt :: "ps_stmt \<Rightarrow> world \<Rightarrow> world" where
  "log_stmt q w = w\<lparr>ps_log := ps_log w @ [q]\<rparr>"

text \<open>\<^verbatim>\<open>prisma.asset.findUnique({ where: { symbol } })\<close>\<close>

definition asset_findUnique :: "string \<Rightarrow> world \<Rightarrow> asset option \<times> world" where
  "asset_findUnique symbol w =
     (find (\<lambda>a. a_symbol a = symbol) (assets (db w)), log_stmt (AssetFindUnique symbol) w)"

text \<open>\<^verbatim>\<open>tx.transaction.findUnique({ where: { idempotency_key } })\<close>\<close>

definition transaction_findUnique :: "string \<Rightarrow> world \<Rightarrow> transaction_row option \<times> world" where
  "transaction_findUnique k w =
     (find (\<lambda>t. t_idempotency_key t = k) (transactions (db w)),
      log_stmt (TransactionFindUnique k) w)"

text \<open>
  The locking read \<^verbatim>\<open>SELECT id FROM wallets WHERE user_id IN (lockA, lockB) AND asset_id = ...
  FOR UPDATE\<close>. It changes no row; it is where the store can signal contention.
\<close>

definition select_wallets_for_update ::
  "string \<Rightarrow> string \<Rightarrow> string \<Rightarrow> world \<Rightarrow> (js_error + unit) \<times> world" where
  "select_wallets_for_update lockA lockB asset_id w =
     (let w' = log_stmt (SelectWalletsForUpdate lockA lockB asset_id) w in
      case faults w' of
        [] \<Rightarrow> (Inr (), w')
      | None # fs \<Rightarrow> (Inr (), w'\<lparr>faults := fs\<rparr>)
      | Some e # fs \<Rightarrow> (Inl e, w'\<lparr>faults := fs\<rparr>))"

text \<open>\<^verbatim>\<open>tx.wallet.findUnique({ where: { user_id_asset_id: { user_id, asset_id } } })\<close>\<close>

definition wallet_findUnique :: "string \<Rightarrow> string \<Rightarrow> world \<Rightarrow> wallet option \<times> world" where
  "wallet_findUnique uid aid w =
     (find (\<lambda>x. w_user_id x = uid \<and> w_asset_id x = aid) (wallets (db w)),
      log_stmt (WalletFindUnique uid aid) w)"

text \<open>
  \<^verbatim>\<open>tx.wallet.update({ where: { id }, data: { balance } })\<close>, with the number given for the
  balance. The column is \<^verbatim>\<open>DECIMAL(18,4) CHECK (balance >= 0)\<close>. The wallet updated was read
  in the same transaction, so the case of a missing row is left out.
\<close>

definition wallet_update :: "string \<Rightarrow> rat \<Rightarrow> world \<Rightarrow> (js_error + unit) \<times> world" where
  "wallet_update wid b w =
     (let w' = log_stmt (WalletUpdate wid b) w
      in case decimal_18_4 b of
           Inl e \<Rightarrow> (Inl e, w')
         | Inr d \<Rightarrow>
             if d < 0 then
               (Inl (StoreError (Some ''23514'')
                  ''new row for relation wallets violates check constraint''), w')
             else
               (Inr (),
                w'\<lparr>db := (db w')\<lparr>wallets :=
                     map (\<lambda>x. if w_id x = wid then x\<lparr>w_balance := d\<rparr> else x)
                       (wallets (db w'))\<rparr>\<rparr>))"

text \<open>
  \<^verbatim>\<open>tx.transaction.create({ data: {...} })\<close>: the row gets a generated id and the creation
  time of the store's clock, and is returned. The columns are
  \<^verbatim>\<open>idempotency_key VARCHAR(255) UNIQUE\<close> and \<^verbatim>\<open>amount DECIMAL(18,4) CHECK (amount > 0)\<close>.
\<close>

definition transaction_create ::
  "string \<Rightarrow> string \<Rightarrow> string \<Rightarrow> rat \<Rightarrow> TransactionType \<Rightarrow> string \<Rightarrow> world \<Rightarrow>
   (js_error + transaction_row) \<times> world" where
  "transaction_create k from_id to_id amount type st w =
     (let w' = log_stmt (TransactionCreate k) w
      in if 255 < length k then
           (Inl (StoreError (Some ''22001'') ''value too long for type character varying(255)''),
            w')
         else
           (case decimal_18_4 amount of
              Inl e \<Rightarrow> (Inl e, w')
            | Inr d \<Rightarrow>
                if d \<le> 0 then
                  (Inl (StoreError (Some ''23514'')
                     ''new row for relation transactions violates check constraint''), w')
                else if list_ex (\<lambda>t. t_idempotency_key t = k) (transactions (db w')) then
                  (Inl (StoreError (Some ''23505'')
                     ''duplicate key value violates unique constraint''), w')
                else
                  (let row = \<lparr>t_id = next_id w', t_idempotency_key = k,
                               t_from_wallet_id = from_id, t_to_wallet_id = to_id,
                               t_amount = d, t_type = type, t_status = st,
                               t_created_at = clock w'\<rparr>
                   in (Inr row,
                       w'\<lparr>db := (db w')\<lparr>transactions := transactions (db w') @ [row]\<rparr>,
                          next_id := next_id w' + 1\<rparr>))))"

text \<open>
  \<^verbatim>\<open>tx.ledgerEntry.createMany({ data: [...] })\<close>: each entry of the batch is given as
  (transaction id, wallet id, entry type, amount, balance after). The columns are
  \<^verbatim>\<open>amount DECIMAL(18,4) CHECK (amount > 0)\<close> and \<^verbatim>\<open>balance_after DECIMAL(18,4)\<close>. The entries
  are appended in order, or none is when one of them is rejected.
\<close>

fun number_entries ::
  "nat \<Rightarrow> nat \<Rightarrow> (nat \<times> string \<times> EntryType \<times> rat \<times> rat) list \<Rightarrow>
   js_error + ledger_entry list" where
  "number_entries n c [] = Inr []"
| "number_entries n c ((tid, wid, et, amount, after) # es) =
     (case decimal_18_4 amount of
        Inl e \<Rightarrow> Inl e
      | Inr d \<Rightarrow>
          (case decimal_18_4 after of
             Inl e \<Rightarrow> Inl e
           | Inr b \<Rightarrow>
               if d \<le> 0 then
                 Inl (StoreError (Some ''23514'')
                    ''new row for relation ledger_entries violates check constraint'')
               else
                 (case number_entries (n + 1) c es of
                    Inl e \<Rightarrow> Inl e
                  | Inr rows \<Rightarrow>
                      Inr (\<lparr>l_id = n, l_transaction_id = tid, l_wallet_id = wid,
                            l_entry_type = et, l_amount = d, l_balance_after = b,
                            l_created_at = c\<rparr> # rows))))"

definition ledgerEntry_createMany ::
  "(nat \<times> string \<times> EntryType \<times> rat \<times> rat) list \<Rightarrow> world \<Rightarrow> (js_error + unit) \<times> world" where
  "ledgerEntry_createMany entries w =
     (let w' = log_stmt (LedgerEntryCreateMany (length entries)) w
      in case number_entries (next_id w') (clock w') entries of
           Inl e \<Rightarrow> (Inl e, w')
         | Inr rows \<Rightarrow>
             (Inr (),
              w'\<lparr>db := (db w')\<lparr>ledger_entries := ledger_entries (db w') @ rows\<rparr>,
                 next_id := next_id w' + length entries\<rparr>))"

text \<open>
  \<^verbatim>\<open>prisma.$transaction(async tx => ...)\<close>: the body runs between \<^verbatim>\<open>BEGIN\<close> and \<^verbatim>\<open>COMMIT\<close>; when
  it throws, the tables are restored to what they were at \<^verbatim>\<open>BEGIN\<close>.
\<close>

definition prisma_transaction ::
  "(world \<Rightarrow> (js_error + 'a) \<times> world) \<Rightarrow> world \<Rightarrow> (js_error + 'a) \<times> world" where
  "prisma_transaction body w =
     (case body (log_stmt Begin w) of
        (Inr r, w') \<Rightarrow> (Inr r, log_stmt Commit w')
      | (Inl e, w') \<Rightarrow> (Inl e, log_stmt Rollback (w'\<lparr>db := db w\<rparr>)))"

section \<open>The transfer engine\<close>

text \<open>
  The value \<^verbatim>\<open>{ status, txId, balance }\<close> that \<^verbatim>\<open>executeTransaction\<close> resolves to. The balance
  is a string of digits, represented by the rational the digits spell: \<open>toString x\<close> for
  \<^verbatim>\<open>x.toString()\<close>, and 0 for the literal \<^verbatim>\<open>'0'\<close>.
\<close>

record tx_result =
  status :: string
  txId :: nat
  balance :: rat

definition MAX_AMOUNT :: rat where
  "MAX_AMOUNT = 1000000000"

text \<open>
  The function passed to \<^verbatim>\<open>prisma.$transaction\<close> by \<^verbatim>\<open>executeTransaction\<close>, for the asset found
  and a finite amount. The difference and the sum are those of doubles.
\<close>

definition transfer ::
  "string \<Rightarrow> string \<Rightarrow> string \<Rightarrow> asset \<Rightarrow> string \<Rightarrow> rat \<Rightarrow> TransactionType \<Rightarrow> world \<Rightarrow>
   (js_error + tx_result) \<times> world" where
  "transfer idempotencyKey fromUserId toUserId asset assetSymbol amount type w0 =
     (let w1 = log_stmt SetLockTimeout w0;
          (existing, w2) = transaction_findUnique idempotencyKey w1
      in case existing of
           Some ex \<Rightarrow> (Inr \<lparr>status = ''SUCCESS'', txId = t_id ex, balance = 0\<rparr>, w2)
         | None \<Rightarrow>
             (let (lockA, lockB) = lock_order fromUserId toUserId
              in case select_wallets_for_update lockA lockB (a_id asset) w2 of
                   (Inl e, w3) \<Rightarrow> (Inl e, w3)
                 | (Inr u, w3) \<Rightarrow>
                     (let (fromWallet, w4) = wallet_findUnique fromUserId (a_id asset) w3;
                          (toWallet, w5) = wallet_findUnique toUserId (a_id asset) w4
                      in case fromWallet of
                           None \<Rightarrow>
                             (Inl (NotFoundError (''Sender wallet not found for '' @ fromUserId
                                     @ '' / '' @ assetSymbol)), w5)
                         | Some fw \<Rightarrow>
                             (case toWallet of
                                None \<Rightarrow>
                                  (Inl (NotFoundError (''Receiver wallet not found for ''
                                          @ toUserId @ '' / '' @ assetSymbol)), w5)
                              | Some tw \<Rightarrow>
                                  (let currentBalance = Number (w_balance fw)
                                   in if currentBalance < 0 then
                                        (Inl (Error (''Wallet balance corrupted for ''
                                                @ fromUserId)), w5)
                                      else if currentBalance < amount then
                                        (Inl (Error ''Insufficient funds.''), w5)
                                      else
                                        (let newFromBalance =
                                               round_to_double (currentBalance - amount);
                                             newToBalance =
                                               round_to_double (Number (w_balance tw) + amount)
                                         in case wallet_update (w_id fw) newFromBalance w5 of
                                              (Inl e, w6) \<Rightarrow> (Inl e, w6)
                                            | (Inr u1, w6) \<Rightarrow>
                                         (case wallet_update (w_id tw) newToBalance w6 of
                                              (Inl e, w7) \<Rightarrow> (Inl e, w7)
                                            | (Inr u2, w7) \<Rightarrow>
                                         (case transaction_create idempotencyKey (w_id fw)
                                                 (w_id tw) amount type ''SUCCESS'' w7 of
                                              (Inl e, w8) \<Rightarrow> (Inl e, w8)
                                            | (Inr savedTx, w8) \<Rightarrow>
                                         (case ledgerEntry_createMany
                                                 [(t_id savedTx, w_id fw, DEBIT, amount,
                                                   newFromBalance),
                                                  (t_id savedTx, w_id tw, CREDIT, amount,
                                                   newToBalance)] w8 of
                                              (Inl e, w9) \<Rightarrow> (Inl e, w9)
                                            | (Inr u3, w9) \<Rightarrow>
                                                (let userBalance =
                                                       (if type = TOP_UP \<or> type = BONUS
                                                        then newToBalance else newFromBalance)
                                                 in (Inr \<lparr>status = ''SUCCESS'',
                                                          txId = t_id savedTx,
                                                          balance = toString userBalance\<rparr>,
                                                     w9)))))))))))"

text \<open>
  \<^verbatim>\<open>WalletService.executeTransaction\<close>. For a finite amount the first test
  \<^verbatim>\<open>amount <= 0 || !Number.isFinite(amount)\<close> is \<^verbatim>\<open>amount <= 0\<close>; an infinity or \<^verbatim>\<open>NaN\<close> fails it
  (\<^verbatim>\<open>-Infinity <= 0\<close>, and the other two are not finite). The delays slept by the retry loop
  are not part of the result.
\<close>

fun executeTransaction ::
  "string \<Rightarrow> string \<Rightarrow> string \<Rightarrow> string \<Rightarrow> number \<Rightarrow> TransactionType \<Rightarrow> world \<Rightarrow>
   (js_error + tx_result) \<times> world" where
  "executeTransaction idempotencyKey fromUserId toUserId assetSymbol (Fin amount) type w =
     (if amount \<le> 0 then
        (Inl (ValidationError ''Amount must be a positive finite number''), w)
      else if amount > MAX_AMOUNT then
        (Inl (ValidationError ''Amount exceeds maximum (1000000000)''), w)
      else
        (case asset_findUnique assetSymbol w of
           (None, w1) \<Rightarrow> (Inl (NotFoundError (''Asset '' @ assetSymbol @ '' not found'')), w1)
         | (Some asset, w1) \<Rightarrow>
             (case withRetry
                     (prisma_transaction
                        (transfer idempotencyKey fromUserId toUserId asset assetSymbol amount
                           type)) w1 of
                (r, w2, delays) \<Rightarrow> (r, w2))))"
| "executeTransaction idempotencyKey fromUserId toUserId assetSymbol amount type w =
     (Inl (ValidationError ''Amount must be a positive finite number''), w)"

section \<open>The idempotency cache\<close>

text \<open>\<^verbatim>\<open>redisClient.set(key, value, 'EX', ttl, 'NX')\<close>: stores only when the key is absent and
  tells whether it did (\<^verbatim>\<open>'OK'\<close>). Expiry is not modelled.\<close>

definition redis_set_nx :: "string \<Rightarrow> CachedResponse \<Rightarrow> world \<Rightarrow> bool \<times> world" where
  "redis_set_nx k v w =
     (case fic w k of
        None \<Rightarrow> (True, w\<lparr>fic := (fic w)(k \<mapsto> v)\<rparr>)
      | Some old \<Rightarrow> (False, w))"

definition checkAndReserveIdempotencyKey :: "string \<Rightarrow> world \<Rightarrow> CachedResponse option \<times> world" where
  "checkAndReserveIdempotencyKey key w =
     (case fic w (''idempotency:'' @ key) of
        Some parsed \<Rightarrow> (Some parsed, w)
      | None \<Rightarrow>
          (case redis_set_nx (''idempotency:'' @ key) (PROCESSING None) w of
             (reserved, w') \<Rightarrow>
               if \<not> reserved then
                 (Some (PROCESSING
                    (Some ''A concurrent request is already processing this key.'')), w')
               else (None, w')))"

definition saveIdempotencyResult :: "string \<Rightarrow> CachedResponse \<Rightarrow> world \<Rightarrow> world" where
  "saveIdempotencyResult key response w =
     w\<lparr>fic := (fic w)(''idempotency:'' @ key \<mapsto> response)\<rparr>"

section \<open>The request router and controller\<close>

definition TREASURY_EMAIL :: string where
  "TREASURY_EMAIL = ''treasury@system.internal''"

text \<open>\<^verbatim>\<open>prisma.user.findUnique({ where: { email } })\<close>\<close>

definition user_findUnique_email :: "string \<Rightarrow> world \<Rightarrow> user option \<times> world" where
  "user_findUnique_email email w =
     (find (\<lambda>u. u_email u = email) (users (db w)), log_stmt (UserFindUniqueByEmail email) w)"

text \<open>\<^verbatim>\<open>getTreasuryId\<close>: the memoised id is used when it is set and not the empty string.\<close>

definition lookupTreasury :: "world \<Rightarrow> (js_error + string) \<times> world" where
  "lookupTreasury w =
     (case user_findUnique_email TREASURY_EMAIL w of
        (None, w1) \<Rightarrow>
          (Inl (Error ''System treasury account not found. Run seed.sql first.''), w1)
      | (Some treasury, w1) \<Rightarrow> (Inr (u_id treasury), w1\<lparr>treasuryId := Some (u_id treasury)\<rparr>))"

definition getTreasuryId :: "world \<Rightarrow> (js_error + string) \<times> world" where
  "getTreasuryId w =
     (case treasuryId w of
        Some t \<Rightarrow> if t \<noteq> [] then (Inr t, w) else lookupTreasury w
      | None \<Rightarrow> lookupTreasury w)"

text \<open>
  The JSON body of \<^verbatim>\<open>POST /transactions\<close>: a field is \<open>None\<close> when it is absent or not of
  the JSON type the schema expects.
\<close>

record tx_body =
  b_userId :: "string option"
  b_type :: "string option"
  b_amount :: "number option"
  b_assetSymbol :: "string option"

record request =
  req_idempotency_key :: "string option"
  req_body :: tx_body

record payload =
  p_userId :: string
  p_type :: TransactionType
  p_amount :: number
  p_assetSymbol :: string

definition parse_type :: "string \<Rightarrow> TransactionType option" where
  "parse_type t =
     (if t = ''TOP_UP'' then Some TOP_UP
      else if t = ''BONUS'' then Some BONUS
      else if t = ''SPEND'' then Some SPEND
      else None)"

text \<open>\<^verbatim>\<open>String.prototype.toUpperCase\<close> on the ASCII letters.\<close>

definition upper_char :: "char \<Rightarrow> char" where
  "upper_char c =
     (let n = (of_char c :: nat) in if 97 \<le> n \<and> n \<le> 122 then char_of (n - 32) else c)"

definition toUpperCase :: "string \<Rightarrow> string" where
  "toUpperCase s = map upper_char s"

text \<open>
  \<^verbatim>\<open>transactionSchema.safeParse\<close>: \<^verbatim>\<open>userId\<close> and \<^verbatim>\<open>assetSymbol\<close> of length at least 1, \<^verbatim>\<open>type\<close> one of
  the enumeration, \<^verbatim>\<open>amount\<close> a number (not \<^verbatim>\<open>NaN\<close>) that is positive and at most the maximum,
  which no infinity is; the symbol is upper-cased. \<open>None\<close> is \<^verbatim>\<open>success: false\<close>.
\<close>

definition safeParse :: "tx_body \<Rightarrow> payload option" where
  "safeParse b =
     (case (b_userId b, b_type b, b_amount b, b_assetSymbol b) of
        (Some userId, Some t, Some (Fin a), Some assetSymbol) \<Rightarrow>
          (case parse_type t of
             None \<Rightarrow> None
           | Some type \<Rightarrow>
               if 1 \<le> length userId \<and> 0 < a \<and> a \<le> MAX_AMOUNT \<and> 1 \<le> length assetSymbol
               then Some \<lparr>p_userId = userId, p_type = type, p_amount = Fin a,
                          p_assetSymbol = toUpperCase assetSymbol\<rparr>
               else None)
      | _ \<Rightarrow> None)"

text \<open>
  The bodies the controller sends with \<^verbatim>\<open>res.json\<close>: \<^verbatim>\<open>errorResponse(message)\<close>; the
  \<^verbatim>\<open>errorResponse\<close> of a failed validation; the replay \<^verbatim>\<open>{ ...cached, _cached }\<close>; the result of
  the transfer; and \<^verbatim>\<open>{ status: 'FAILED', error: message }\<close>. Time stamps are left out.
\<close>

datatype response_body =
    ErrorResponse string
  | ValidationFailedResponse
  | CachedReplay CachedResponse bool
  | TransactionResult tx_result
  | FailedResult string

record http_response =
  res_status :: nat
  res_json :: response_body

text \<open>\<^verbatim>\<open>String.prototype.includes\<close>\<close>

fun str_includes :: "string \<Rightarrow> string \<Rightarrow> bool" where
  "str_includes [] sub = (sub = [])"
| "str_includes (c # cs) sub = (take (length sub) (c # cs) = sub \<or> str_includes cs sub)"

text \<open>The \<^verbatim>\<open>catch\<close> block of \<^verbatim>\<open>processTransaction\<close>.\<close>

definition catch_block :: "string \<Rightarrow> js_error \<Rightarrow> world \<Rightarrow> http_response \<times> world" where
  "catch_block idempotencyKey error w =
     (let msg = message error;
          w' = saveIdempotencyResult idempotencyKey (FAILED msg) w;
          isClientError =
            (str_includes msg ''not found'' \<or> str_includes msg ''Insufficient funds'')
      in (\<lparr>res_status = (if isClientError then 400 else 500), res_json = FailedResult msg\<rparr>,
          w'))"

text \<open>\<^verbatim>\<open>WalletController.processTransaction\<close>; a missing or empty header is falsy.\<close>

definition processTransaction :: "request \<Rightarrow> world \<Rightarrow> http_response \<times> world" where
  "processTransaction req w0 =
     (case req_idempotency_key req of
        None \<Rightarrow>
          (\<lparr>res_status = 400, res_json = ErrorResponse ''Idempotency-Key header is required''\<rparr>,
           w0)
      | Some idempotencyKey \<Rightarrow>
          if idempotencyKey = [] then
            (\<lparr>res_status = 400,
              res_json = ErrorResponse ''Idempotency-Key header is required''\<rparr>, w0)
          else
            (case checkAndReserveIdempotencyKey idempotencyKey w0 of
               (Some cached, w1) \<Rightarrow>
                 (case cached of
                    PROCESSING m \<Rightarrow>
                      (\<lparr>res_status = 409,
                        res_json = ErrorResponse
                          ''Transaction is currently processing. Please retry later.''\<rparr>, w1)
                  | SUCCESS t b \<Rightarrow> (\<lparr>res_status = 200, res_json = CachedReplay cached True\<rparr>, w1)
                  | FAILED m \<Rightarrow> (\<lparr>res_status = 200, res_json = CachedReplay cached True\<rparr>, w1))
             | (None, w1) \<Rightarrow>
                 (case safeParse (req_body req) of
                    None \<Rightarrow>
                      (\<lparr>res_status = 400, res_json = ValidationFailedResponse\<rparr>,
                       saveIdempotencyResult idempotencyKey (FAILED ''Validation failed'') w1)
                  | Some parsed \<Rightarrow>
                      (case getTreasuryId w1 of
                         (Inl error, w2) \<Rightarrow> catch_block idempotencyKey error w2
                       | (Inr treasury, w2) \<Rightarrow>
                           (let fromUserId =
                                  (if p_type parsed = TOP_UP \<or> p_type parsed = BONUS
                                   then treasury else p_userId parsed);
                                toUserId =
                                  (if p_type parsed = TOP_UP \<or> p_type parsed = BONUS
                                   then p_userId parsed else treasury)
                            in case executeTransaction idempotencyKey fromUserId toUserId
                                      (p_assetSymbol parsed) (p_amount parsed) (p_type parsed)
                                      w2 of
                                 (Inl error, w3) \<Rightarrow> catch_block idempotencyKey error w3
                               | (Inr result, w3) \<Rightarrow>
                                   (\<lparr>res_status = 200, res_json = TransactionResult result\<rparr>,
                                    saveIdempotencyResult idempotencyKey
                                      (SUCCESS (txId result) (balance result)) w3))))))"

section \<open>Transaction history\<close>

record history_options =
  o_type :: "TransactionType option"
  o_assetSymbol :: "string option"
  o_startDate :: "nat option"
  o_endDate :: "nat option"
  o_limit :: "int option"
  o_offset :: "int option"

text \<open>A transaction with the relations of \<^verbatim>\<open>include\<close>: both wallets, each with its asset.\<close>

record tx_included =
  i_tx :: transaction_row
  i_from_wallet :: wallet
  i_from_asset :: asset
  i_to_wallet :: wallet
  i_to_asset :: asset

record tx_view =
  v_id :: nat
  v_idempotencyKey :: string
  v_type :: TransactionType
  v_amount :: rat
  v_assetSymbol :: string
  v_fromUser :: string
  v_toUser :: string
  v_status :: string
  v_createdAt :: nat

record pagination =
  total :: nat
  limit :: int
  offset :: int
  returned :: nat
  hasMore :: bool

record history_page =
  h_transactions :: "tx_view list"
  h_pagination :: pagination

text \<open>\<^verbatim>\<open>prisma.user.findUnique({ where: { id } })\<close>\<close>

definition user_findUnique :: "string \<Rightarrow> world \<Rightarrow> user option \<times> world" where
  "user_findUnique userId w =
     (find (\<lambda>u. u_id u = userId) (users (db w)), log_stmt (UserFindUniqueById userId) w)"

definition wallet_by_id :: "store \<Rightarrow> string \<Rightarrow> wallet option" where
  "wallet_by_id d wid = find (\<lambda>x. w_id x = wid) (wallets d)"

definition asset_by_id :: "store \<Rightarrow> string \<Rightarrow> asset option" where
  "asset_by_id d aid = find (\<lambda>a. a_id a = aid) (assets d)"

text \<open>
  The \<^verbatim>\<open>where\<close> of the history query: the user owns the source or the destination wallet,
  and the optional type and date bounds hold.
\<close>

definition history_where ::
  "store \<Rightarrow> string \<Rightarrow> TransactionType option \<Rightarrow> nat option \<Rightarrow> nat option \<Rightarrow>
   transaction_row \<Rightarrow> bool" where
  "history_where d userId type startDate endDate t =
     (((case wallet_by_id d (t_from_wallet_id t) of
          None \<Rightarrow> False | Some x \<Rightarrow> w_user_id x = userId) \<or>
       (case wallet_by_id d (t_to_wallet_id t) of
          None \<Rightarrow> False | Some x \<Rightarrow> w_user_id x = userId)) \<and>
      (case type of None \<Rightarrow> True | Some ty \<Rightarrow> t_type t = ty) \<and>
      (case startDate of None \<Rightarrow> True | Some gte \<Rightarrow> gte \<le> t_created_at t) \<and>
      (case endDate of None \<Rightarrow> True | Some lte \<Rightarrow> t_created_at t \<le> lte))"

definition include_wallets :: "store \<Rightarrow> transaction_row \<Rightarrow> tx_included option" where
  "include_wallets d t =
     (case wallet_by_id d (t_from_wallet_id t) of
        None \<Rightarrow> None
      | Some fw \<Rightarrow>
          (case asset_by_id d (w_asset_id fw) of
             None \<Rightarrow> None
           | Some fa \<Rightarrow>
               (case wallet_by_id d (t_to_wallet_id t) of
                  None \<Rightarrow> None
                | Some tw \<Rightarrow>
                    (case asset_by_id d (w_asset_id tw) of
                       None \<Rightarrow> None
                     | Some ta \<Rightarrow>
                         Some \<lparr>i_tx = t, i_from_wallet = fw, i_from_asset = fa,
                               i_to_wallet = tw, i_to_asset = ta\<rparr>))))"

text \<open>The rows the \<^verbatim>\<open>where\<close> selects, in the order of \<^verbatim>\<open>orderBy: { created_at: 'desc' }\<close>.\<close>

definition history_rows ::
  "store \<Rightarrow> string \<Rightarrow> TransactionType option \<Rightarrow> nat option \<Rightarrow> nat option \<Rightarrow>
   transaction_row list" where
  "history_rows d userId type startDate endDate =
     rev (sort_key t_created_at
            (filter (history_where d userId type startDate endDate) (transactions d)))"

text \<open>\<^verbatim>\<open>prisma.transaction.count({ where })\<close>\<close>

definition transaction_count ::
  "string \<Rightarrow> TransactionType option \<Rightarrow> nat option \<Rightarrow> nat option \<Rightarrow> world \<Rightarrow> nat \<times> world" where
  "transaction_count userId type startDate endDate w =
     (length (history_rows (db w) userId type startDate endDate), log_stmt TransactionCount w)"

text \<open>
  \<^verbatim>\<open>prisma.transaction.findMany({ where, include, orderBy: { created_at: 'desc' }, take,
  skip })\<close>: the window cut out of the selected rows, with the relations loaded for the rows
  of the window. A row whose wallet or asset is missing makes the query fail.
\<close>

definition transaction_findMany ::
  "string \<Rightarrow> TransactionType option \<Rightarrow> nat option \<Rightarrow> nat option \<Rightarrow> int \<Rightarrow> int \<Rightarrow> world \<Rightarrow>
   (js_error + tx_included list) \<times> world" where
  "transaction_findMany userId type startDate endDate take_n skip_n w =
     (let window = take (nat take_n)
                     (drop (nat skip_n) (history_rows (db w) userId type startDate endDate))
      in (case those (map (include_wallets (db w)) window) of
            None \<Rightarrow> Inl (StoreError None ''Inconsistent query result'')
          | Some rows \<Rightarrow> Inr rows,
          log_stmt TransactionFindMany w))"

text \<open>
  The test of the asset filter of \<^verbatim>\<open>getTransactionHistory\<close>,
  \<^verbatim>\<open>tx.from_wallet.asset.symbol === assetSymbol || tx.to_wallet.asset.symbol === assetSymbol\<close>.
\<close>

definition asset_matches :: "string \<Rightarrow> tx_included \<Rightarrow> bool" where
  "asset_matches assetSymbol tx =
     (a_symbol (i_from_asset tx) = assetSymbol \<or> a_symbol (i_to_asset tx) = assetSymbol)"

definition to_view :: "tx_included \<Rightarrow> tx_view" where
  "to_view tx =
     \<lparr>v_id = t_id (i_tx tx), v_idempotencyKey = t_idempotency_key (i_tx tx),
      v_type = t_type (i_tx tx), v_amount = t_amount (i_tx tx),
      v_assetSymbol = a_symbol (i_from_asset tx), v_fromUser = w_user_id (i_from_wallet tx),
      v_toUser = w_user_id (i_to_wallet tx), v_status = t_status (i_tx tx),
      v_createdAt = t_created_at (i_tx tx)\<rparr>"

text \<open>
  \<^verbatim>\<open>WalletService.getTransactionHistory\<close>. The defaults of the destructuring are 50 and 0;
  an absent or empty \<^verbatim>\<open>assetSymbol\<close> is falsy and filters nothing.
\<close>

definition getTransactionHistory ::
  "string \<Rightarrow> history_options \<Rightarrow> world \<Rightarrow> (js_error + history_page) \<times> world" where
  "getTransactionHistory userId options w =
     (let lim = (case o_limit options of None \<Rightarrow> 50 | Some l \<Rightarrow> l);
          off = (case o_offset options of None \<Rightarrow> 0 | Some k \<Rightarrow> k)
      in if lim < 1 \<or> lim > 500 then
           (Inl (ValidationError ''Limit must be between 1 and 500''), w)
         else if off < 0 then (Inl (ValidationError ''Offset must be non-negative''), w)
         else
           (case user_findUnique userId w of
              (None, w1) \<Rightarrow> (Inl (NotFoundError (''User '' @ userId @ '' not found'')), w1)
            | (Some u, w1) \<Rightarrow>
                (case transaction_count userId (o_type options) (o_startDate options)
                        (o_endDate options) w1 of
                   (tot, w2) \<Rightarrow>
                     (case transaction_findMany userId (o_type options) (o_startDate options)
                             (o_endDate options) lim off w2 of
                        (Inl e, w3) \<Rightarrow> (Inl e, w3)
                      | (Inr txs, w3) \<Rightarrow>
                          (let filtered =
                                 (case o_assetSymbol options of
                                    None \<Rightarrow> txs
                                  | Some assetSymbol \<Rightarrow>
                                      if assetSymbol = [] then txs
                                      else filter (asset_matches assetSymbol) txs)
                           in (Inr \<lparr>h_transactions = map to_view filtered,
                                     h_pagination =
                                       \<lparr>total = tot, limit = lim, offset = off,
                                        returned = length filtered,
                                        hasMore = (off + int (length filtered) < int tot)\<rparr>\<rparr>,
                               w3))))))"

section \<open>Integrity of the store and the seeded state\<close>

text \<open>
  Generated identifiers are new: every transaction id in the store, and every transaction
  id a ledger entry refers to, is below the next identifier to be generated.
\<close>

definition ids_fresh :: "world \<Rightarrow> bool" where
  "ids_fresh w =
     ((\<forall>t \<in> set (transactions (db w)). t_id t < next_id w) \<and>
      (\<forall>e \<in> set (ledger_entries (db w)). l_transaction_id e < next_id w))"



text \<open>The state after \<^verbatim>\<open>seed.sql\<close>; the ids of the wallets are generated, and named here.\<close>

definition TREASURY_ID :: string where
  "TREASURY_ID = ''00000000-0000-0000-0000-000000000001''"

definition ALICE_ID :: string where
  "ALICE_ID = ''00000000-0000-0000-0000-000000000002''"

definition BOB_ID :: string where
  "BOB_ID = ''00000000-0000-0000-0000-000000000003''"

definition CHARLIE_ID :: string where
  "CHARLIE_ID = ''00000000-0000-0000-0000-000000000004''"

definition GOLD_ID :: string where
  "GOLD_ID = ''a0eebc99-9c0b-4ef8-bb6d-6bb9bd380a11''"

definition DIAMOND_ID :: string where
  "DIAMOND_ID = ''b0eebc99-9c0b-4ef8-bb6d-6bb9bd380a22''"

definition seed_db :: store where
  "seed_db =
     \<lparr>users =
        [\<lparr>u_id = TREASURY_ID, u_name = ''System Treasury'', u_email = ''treasury@system.internal''\<rparr>,
         \<lparr>u_id = ALICE_ID, u_name = ''Alice'', u_email = ''alice@example.com''\<rparr>,
         \<lparr>u_id = BOB_ID, u_name = ''Bob'', u_email = ''bob@example.com''\<rparr>,
         \<lparr>u_id = CHARLIE_ID, u_name = ''Charlie'', u_email = ''charlie@example.com''\<rparr>],
      assets =
        [\<lparr>a_id = GOLD_ID, a_symbol = ''GOLD'', a_name = ''Gold Coins''\<rparr>,
         \<lparr>a_id = DIAMOND_ID, a_symbol = ''DIAMOND'', a_name = ''Diamonds''\<rparr>],
      wallets =
        [\<lparr>w_id = ''wallet-1'', w_user_id = TREASURY_ID, w_asset_id = GOLD_ID, w_balance = 1000000\<rparr>,
         \<lparr>w_id = ''wallet-2'', w_user_id = TREASURY_ID, w_asset_id = DIAMOND_ID,
           w_balance = 1000000\<rparr>,
         \<lparr>w_id = ''wallet-3'', w_user_id = ALICE_ID, w_asset_id = GOLD_ID, w_balance = 100\<rparr>,
         \<lparr>w_id = ''wallet-4'', w_user_id = BOB_ID, w_asset_id = GOLD_ID, w_balance = 200\<rparr>,
         \<lparr>w_id = ''wallet-5'', w_user_id = CHARLIE_ID, w_asset_id = DIAMOND_ID, w_balance = 30\<rparr>],
      transactions = [],
      ledger_entries = []\<rparr>"

definition seed_world :: world where
  "seed_world =
     \<lparr>db = seed_db, faults = [], ps_log = [], next_id = 0, clock = 0, fic = (\<lambda>k. None),
      treasuryId = None\<rparr>"

text \<open>A top-up of 100 GOLD for Alice under the key \<^verbatim>\<open>k1\<close>.\<close>

definition top_up_alice :: "world \<Rightarrow> (js_error + tx_result) \<times> world" where
  "top_up_alice = executeTransaction ''k1'' TREASURY_ID ALICE_ID ''GOLD'' (Fin 100) TOP_UP"


text \<open>A spend of 10000 GOLD by Bob, who holds 200, under the key \<^verbatim>\<open>k3\<close>.\<close>

definition overspend_bob :: "world \<Rightarrow> (js_error + tx_result) \<times> world" where
  "overspend_bob = executeTransaction ''k3'' BOB_ID TREASURY_ID ''GOLD'' (Fin 10000) SPEND"


definition dust_top_up_alice :: "world \<Rightarrow> (js_error + tx_result) \<times> world" where
  "dust_top_up_alice =
     executeTransaction ''k6'' TREASURY_ID ALICE_ID ''GOLD'' (Fin (round_to_double (1 / 100000)))
       TOP_UP"


text \<open>The same top-up under the same key \<^verbatim>\<open>k1\<close>, with the amount 0.\<close>

definition zero_top_up_alice :: "world \<Rightarrow> (js_error + tx_result) \<times> world" where
  "zero_top_up_alice = executeTransaction ''k1'' TREASURY_ID ALICE_ID ''GOLD'' (Fin 0) TOP_UP"

text \<open>Requests to \<^verbatim>\<open>POST /transactions\<close>: a top-up whose user is the treasury itself, an
  overspend by Bob, and a top-up with a negative amount; and calls of the service with an
  amount that is not a number and with an asset that does not exist.\<close>

definition treasury_self_top_up :: request where
  "treasury_self_top_up =
     \<lparr>req_idempotency_key = Some ''k9'',
      req_body = \<lparr>b_userId = Some TREASURY_ID, b_type = Some ''TOP_UP'',
                  b_amount = Some (Fin 100), b_assetSymbol = Some ''GOLD''\<rparr>\<rparr>"

definition bob_overspend_request :: request where
  "bob_overspend_request =
     \<lparr>req_idempotency_key = Some ''k3'',
      req_body = \<lparr>b_userId = Some BOB_ID, b_type = Some ''SPEND'',
                  b_amount = Some (Fin 10000), b_assetSymbol = Some ''gold''\<rparr>\<rparr>"

definition nan_top_up_alice :: "world \<Rightarrow> (js_error + tx_result) \<times> world" where
  "nan_top_up_alice = executeTransaction ''k7'' TREASURY_ID ALICE_ID ''GOLD'' NaN TOP_UP"

definition silver_top_up_alice :: "world \<Rightarrow> (js_error + tx_result) \<times> world" where
  "silver_top_up_alice = executeTransaction ''k7'' TREASURY_ID ALICE_ID ''SILVER'' (Fin 1) TOP_UP"

definition negative_amount_request :: request where
  "negative_amount_request =
     \<lparr>req_idempotency_key = Some ''k7'',
      req_body = \<lparr>b_userId = Some ALICE_ID, b_type = Some ''TOP_UP'',
                  b_amount = Some (Fin (- 5)), b_assetSymbol = Some ''GOLD''\<rparr>\<rparr>"

text \<open>
  A state reached from the seeded one by three transfers at the times 1, 2 and 3: a top-up
  of GOLD for Alice, a spend of GOLD by Bob and a bonus of DIAMOND for Charlie; and a query
  for the GOLD transactions of the treasury with a page of two rows.
\<close>

definition history_world :: world where
  "history_world =
     (let w1 = snd (executeTransaction ''h1'' TREASURY_ID ALICE_ID ''GOLD'' (Fin 10) TOP_UP
                      (seed_world\<lparr>clock := 1\<rparr>));
          w2 = snd (executeTransaction ''h2'' BOB_ID TREASURY_ID ''GOLD'' (Fin 20) SPEND
                      (w1\<lparr>clock := 2\<rparr>));
          w3 = snd (executeTransaction ''h3'' TREASURY_ID CHARLIE_ID ''DIAMOND'' (Fin 5) BONUS
                      (w2\<lparr>clock := 3\<rparr>))
      in w3\<lparr>clock := 4\<rparr>)"

definition history_query :: history_options where
  "history_query =
     \<lparr>o_type = None, o_assetSymbol = Some ''GOLD'', o_startDate = None, o_endDate = None,
      o_limit = Some 2, o_offset = Some 0\<rparr>"

text \<open>The GOLD asset of the seeded state.\<close>

definition gold :: asset where
  "gold = \<lparr>a_id = GOLD_ID, a_symbol = ''GOLD'', a_name = ''Gold Coins''\<rparr>"

section \<open>Verification: the retry policy\<close>

declare withRetry_loop.simps [simp del]

text \<open>The three rounds of the loop for \<open>maxAttempts = 3\<close>, unfolded from the last one.\<close>

lemma withRetry_loop_third:
  "withRetry_loop fn 3 (Suc (Suc (Suc 0))) s = (case fn s of (r, s') \<Rightarrow> (r, s', []))"
  by (subst withRetry_loop.simps) (simp split: prod.splits sum.splits)

lemma withRetry_loop_second:
  "withRetry_loop fn 3 (Suc (Suc 0)) s =
     (case fn s of
        (Inr v, s') \<Rightarrow> (Inr v, s', [])
      | (Inl e, s') \<Rightarrow>
          if isRetryable e then (case fn s' of (r, s'') \<Rightarrow> (r, s'', [400]))
          else (Inl e, s', []))"
  by (subst withRetry_loop.simps) (simp add: withRetry_loop_third split: prod.splits sum.splits)

lemma withRetry_unfold:
  "withRetry fn s =
     (case fn s of
        (Inr v, s1) \<Rightarrow> (Inr v, s1, [])
      | (Inl e, s1) \<Rightarrow>
          if \<not> isRetryable e then (Inl e, s1, [])
          else
            (case fn s1 of
               (Inr v, s2) \<Rightarrow> (Inr v, s2, [200])
             | (Inl e2, s2) \<Rightarrow>
                 if \<not> isRetryable e2 then (Inl e2, s2, [200])
                 else (case fn s2 of (r, s3) \<Rightarrow> (r, s3, [200, 400]))))"
  unfolding withRetry_def
  by (subst withRetry_loop.simps) (simp add: withRetry_loop_second split: prod.splits sum.splits)

lemma isRetryable_iff:
  "isRetryable e \<longleftrightarrow> code e = Some ''40P01'' \<or> code e = Some ''55P03''"
  by (auto simp add: isRetryable_def RETRYABLE_PG_CODES_def split: option.splits)

lemma withRetry_traced:
  "\<exists>tr. withRetry (traced fn) ([], s) =
          (fst (withRetry fn s), (tr, fst (snd (withRetry fn s))), snd (snd (withRetry fn s))) \<and>
        tr \<noteq> [] \<and> length tr \<le> 3 \<and> last tr = fst (withRetry fn s) \<and>
        (\<forall>r \<in> set (butlast tr). \<exists>e. r = Inl e \<and> isRetryable e) \<and>
        (length tr < 3 \<longrightarrow> (\<forall>e. last tr = Inl e \<longrightarrow> \<not> isRetryable e)) \<and>
        snd (snd (withRetry fn s)) = take (length tr - 1) [200, 400]"
  by (auto simp add: withRetry_unfold traced_def split: prod.splits sum.splits)

lemma backoff_delays:
  fixes tr :: "'b list"
  assumes "length tr \<le> 3" "tr \<noteq> []"
  shows "take (length tr - 1) [200, 400 :: nat]
         = map (\<lambda>attempt. 2 ^ attempt * 100) [1..<length tr]"
proof -
  from assms consider "length tr = 1" | "length tr = 2" | "length tr = 3"
    by (cases tr) (auto simp add: le_Suc_eq numeral_3_eq_3)
  then show ?thesis
    by cases (simp_all add: upt_rec numeral_3_eq_3 numeral_2_eq_2)
qed

text \<open>
  Claim C8. Run \<open>withRetry\<close> on a callback and record the outcome of every invocation in
  a trace \<open>tr\<close>. The callback is invoked at least once and at most 3 times; the result is the
  outcome of the last invocation; every invocation before the last threw an error whose
  code is deadlock-detected (40P01) or lock-not-available (55P03), so a success or any
  other error ends the loop at once; the loop stops before the third attempt only on a
  success or on an error with another code; and the delays slept are \<open>2 ^ attempt * 100\<close>
  milliseconds: 200 after the first failure and 400 after the second.
\<close>

theorem withRetry_policy:
  "\<exists>tr. withRetry (traced fn) ([], s) =
          (fst (withRetry fn s), (tr, fst (snd (withRetry fn s))), snd (snd (withRetry fn s))) \<and>
        tr \<noteq> [] \<and> length tr \<le> 3 \<and> last tr = fst (withRetry fn s) \<and>
        (\<forall>r \<in> set (butlast tr).
           \<exists>e. r = Inl e \<and> (code e = Some ''40P01'' \<or> code e = Some ''55P03'')) \<and>
        (length tr < 3 \<longrightarrow>
           (\<forall>e. last tr = Inl e \<longrightarrow> code e \<noteq> Some ''40P01'' \<and> code e \<noteq> Some ''55P03'')) \<and>
        snd (snd (withRetry fn s)) = map (\<lambda>attempt. 2 ^ attempt * 100) [1..<length tr] \<and>
        snd (snd (withRetry fn s)) = take (length tr - 1) [200, 400]"
proof -
  from withRetry_traced [of fn s] obtain tr where tr:
    "withRetry (traced fn) ([], s) =
       (fst (withRetry fn s), (tr, fst (snd (withRetry fn s))), snd (snd (withRetry fn s)))"
    "tr \<noteq> []" "length tr \<le> 3" "last tr = fst (withRetry fn s)"
    "\<forall>r \<in> set (butlast tr). \<exists>e. r = Inl e \<and> isRetryable e"
    "length tr < 3 \<longrightarrow> (\<forall>e. last tr = Inl e \<longrightarrow> \<not> isRetryable e)"
    "snd (snd (withRetry fn s)) = take (length tr - 1) [200, 400]"
    by blast
  have "snd (snd (withRetry fn s)) = map (\<lambda>attempt. 2 ^ attempt * 100) [1..<length tr]"
    using tr(2,3,7) backoff_delays [of tr] by simp
  with tr show ?thesis
    unfolding isRetryable_iff by blast
qed

theorem withRetry_policy_witness:
  "withRetry (traced scripted)
     ([], [Inl (StoreError (Some ''40P01'') ''deadlock detected''), Inl (Error ''boom''), Inr 7])
   = (Inl (Error ''boom''),
      ([Inl (StoreError (Some ''40P01'') ''deadlock detected''), Inl (Error ''boom'')], [Inr 7]),
      [200]) \<and>
   isRetryable (StoreError (Some ''40P01'') ''deadlock detected'') \<and>
   \<not> isRetryable (Error ''boom'')"
  using withRetry_policy [of scripted
      "[Inl (StoreError (Some ''40P01'') ''deadlock detected''), Inl (Error ''boom''), Inr 7]"]
  by (simp add: withRetry_unfold traced_def scripted_def isRetryable_def RETRYABLE_PG_CODES_def)

section \<open>Verification: the transfer engine\<close>

lemma lock_order_eq:
  "lock_order a b = (if a \<le> b then (a, b) else (b, a))"
  by (simp add: lock_order_def)

declare bit_length.simps [simp del]
declare decimal_digits.simps [simp del]

lemma decimal_18_4_Inr:
  "decimal_18_4 x = Inr d \<Longrightarrow> d = to_decimal4 (toString x)"
  by (auto simp add: decimal_18_4_def Let_def split: if_splits)

lemmas store_defs = log_stmt_def asset_findUnique_def transaction_findUnique_def
  select_wallets_for_update_def wallet_findUnique_def wallet_update_def transaction_create_def
  ledgerEntry_createMany_def

lemmas read_defs = log_stmt_def asset_findUnique_def transaction_findUnique_def
  select_wallets_for_update_def wallet_findUnique_def

lemma wallet_update_frame:
  assumes "wallet_update wid b w = (r, w')"
  shows "fic w' = fic w \<and> treasuryId w' = treasuryId w \<and> clock w' = clock w \<and>
     next_id w' = next_id w \<and> faults w' = faults w"
  using assms
  by (auto simp add: wallet_update_def log_stmt_def Let_def split: sum.splits if_splits)

lemma wallet_update_Inr:
  assumes "wallet_update wid b w = (Inr u, w')"
  shows "0 \<le> to_decimal4 (toString b) \<and>
     ps_log w' = ps_log w @ [WalletUpdate wid b] \<and>
     db w' = (db w)\<lparr>wallets :=
        map (\<lambda>x. if w_id x = wid then x\<lparr>w_balance := to_decimal4 (toString b)\<rparr> else x)
          (wallets (db w))\<rparr>"
  using assms
  by (auto simp add: wallet_update_def log_stmt_def Let_def split: sum.splits if_splits
      dest!: decimal_18_4_Inr)

lemma transaction_create_frame:
  assumes "transaction_create k from_id to_id a ty st w = (r, w')"
  shows "fic w' = fic w \<and> treasuryId w' = treasuryId w \<and> clock w' = clock w \<and>
     next_id w \<le> next_id w' \<and> faults w' = faults w"
  using assms
  by (auto simp add: transaction_create_def log_stmt_def Let_def split: sum.splits if_splits)

lemma transaction_create_Inr:
  assumes "transaction_create k from_id to_id a ty st w = (Inr row, w')"
  shows "length k \<le> 255 \<and> 0 < to_decimal4 (toString a) \<and>
     row = \<lparr>t_id = next_id w, t_idempotency_key = k, t_from_wallet_id = from_id,
             t_to_wallet_id = to_id, t_amount = to_decimal4 (toString a), t_type = ty,
             t_status = st, t_created_at = clock w\<rparr> \<and>
     ps_log w' = ps_log w @ [TransactionCreate k] \<and>
     db w' = (db w)\<lparr>transactions := transactions (db w) @ [row]\<rparr> \<and>
     next_id w' = next_id w + 1"
  using assms
  by (auto simp add: transaction_create_def log_stmt_def Let_def split: sum.splits if_splits
      dest!: decimal_18_4_Inr)

lemma ledgerEntry_createMany_frame:
  assumes "ledgerEntry_createMany es w = (r, w')"
  shows "fic w' = fic w \<and> treasuryId w' = treasuryId w \<and> clock w' = clock w \<and>
     next_id w \<le> next_id w' \<and> faults w' = faults w"
  using assms
  by (auto simp add: ledgerEntry_createMany_def log_stmt_def Let_def split: sum.splits)

lemma number_entries_pair:
  assumes "number_entries n c [(tid1, wid1, et1, a1, b1), (tid2, wid2, et2, a2, b2)] = Inr rows"
  shows "rows =
     [\<lparr>l_id = n, l_transaction_id = tid1, l_wallet_id = wid1, l_entry_type = et1,
       l_amount = to_decimal4 (toString a1), l_balance_after = to_decimal4 (toString b1),
       l_created_at = c\<rparr>,
      \<lparr>l_id = n + 1, l_transaction_id = tid2, l_wallet_id = wid2, l_entry_type = et2,
       l_amount = to_decimal4 (toString a2), l_balance_after = to_decimal4 (toString b2),
       l_created_at = c\<rparr>]"
  using assms
  by (auto split: sum.splits if_splits dest!: decimal_18_4_Inr)

lemma ledgerEntry_createMany_Inr:
  assumes "ledgerEntry_createMany [(tid1, wid1, et1, a1, b1), (tid2, wid2, et2, a2, b2)] w
             = (Inr u, w')"
  shows "ps_log w' = ps_log w @ [LedgerEntryCreateMany 2] \<and>
     db w' = (db w)\<lparr>ledger_entries := ledger_entries (db w) @
       [\<lparr>l_id = next_id w, l_transaction_id = tid1, l_wallet_id = wid1, l_entry_type = et1,
         l_amount = to_decimal4 (toString a1), l_balance_after = to_decimal4 (toString b1),
         l_created_at = clock w\<rparr>,
        \<lparr>l_id = next_id w + 1, l_transaction_id = tid2, l_wallet_id = wid2, l_entry_type = et2,
         l_amount = to_decimal4 (toString a2), l_balance_after = to_decimal4 (toString b2),
         l_created_at = clock w\<rparr>]\<rparr> \<and>
     next_id w' = next_id w + 2"
proof -
  from assms obtain rows where
    rows: "number_entries (next_id w) (clock w)
             [(tid1, wid1, et1, a1, b1), (tid2, wid2, et2, a2, b2)] = Inr rows"
    and w': "w' = (log_stmt (LedgerEntryCreateMany 2) w)\<lparr>db :=
               (db w)\<lparr>ledger_entries := ledger_entries (db w) @ rows\<rparr>,
               next_id := next_id w + 2\<rparr>"
    by (auto simp add: ledgerEntry_createMany_def log_stmt_def Let_def split: sum.splits
        simp del: number_entries.simps)
  from number_entries_pair [OF rows] w' show ?thesis
    by (simp add: log_stmt_def)
qed

lemma transfer_duplicate:
  assumes "find (\<lambda>x. t_idempotency_key x = k) (transactions (db w)) = Some ex"
  shows "transfer k f t asset symbol a ty w =
    (Inr \<lparr>status = ''SUCCESS'', txId = t_id ex, balance = 0\<rparr>,
     w\<lparr>ps_log := ps_log w @ [SetLockTimeout, TransactionFindUnique k]\<rparr>)"
  using assms by (simp add: transfer_def store_defs)

lemma transfer_chain:
  assumes "transfer k f t asset symbol a ty w = (Inr r, w')"
    and "find (\<lambda>x. t_idempotency_key x = k) (transactions (db w)) = None"
  shows "\<exists>fw tw w5 w6 w7 w8 savedTx u1 u2 u3.
    find (\<lambda>x. w_user_id x = f \<and> w_asset_id x = a_id asset) (wallets (db w)) = Some fw \<and>
    find (\<lambda>x. w_user_id x = t \<and> w_asset_id x = a_id asset) (wallets (db w)) = Some tw \<and>
    \<not> Number (w_balance fw) < 0 \<and> \<not> Number (w_balance fw) < a \<and>
    wallet_update (w_id fw) (round_to_double (Number (w_balance fw) - a)) w5 = (Inr u1, w6) \<and>
    wallet_update (w_id tw) (round_to_double (Number (w_balance tw) + a)) w6 = (Inr u2, w7) \<and>
    transaction_create k (w_id fw) (w_id tw) a ty ''SUCCESS'' w7 = (Inr savedTx, w8) \<and>
    ledgerEntry_createMany
      [(t_id savedTx, w_id fw, DEBIT, a, round_to_double (Number (w_balance fw) - a)),
       (t_id savedTx, w_id tw, CREDIT, a, round_to_double (Number (w_balance tw) + a))] w8
      = (Inr u3, w') \<and>
    r = \<lparr>status = ''SUCCESS'', txId = t_id savedTx,
          balance = toString (if ty = TOP_UP \<or> ty = BONUS
                              then round_to_double (Number (w_balance tw) + a)
                              else round_to_double (Number (w_balance fw) - a))\<rparr> \<and>
    db w5 = db w \<and> next_id w5 = next_id w \<and> clock w5 = clock w"
  using assms
  apply (simp add: transfer_def read_defs Let_def
      split: option.splits list.splits prod.splits sum.splits if_splits)
  apply (auto split: option.splits list.splits prod.splits sum.splits if_splits)
  apply (intro exI conjI, (assumption | simp)+)+
  done

lemma transfer_Inr_new:
  assumes "transfer k f t asset symbol a ty w = (Inr r, w')"
    and "find (\<lambda>x. t_idempotency_key x = k) (transactions (db w)) = None"
  shows "\<exists>fw tw newFrom newTo.
    find (\<lambda>x. w_user_id x = f \<and> w_asset_id x = a_id asset) (wallets (db w)) = Some fw \<and>
    find (\<lambda>x. w_user_id x = t \<and> w_asset_id x = a_id asset) (wallets (db w)) = Some tw \<and>
    \<not> Number (w_balance fw) < 0 \<and> \<not> Number (w_balance fw) < a \<and>
    newFrom = round_to_double (Number (w_balance fw) - a) \<and>
    newTo = round_to_double (Number (w_balance tw) + a) \<and>
    0 \<le> to_decimal4 (toString newFrom) \<and> 0 \<le> to_decimal4 (toString newTo) \<and>
    0 < to_decimal4 (toString a) \<and> length k \<le> 255 \<and>
    r = \<lparr>status = ''SUCCESS'', txId = next_id w,
          balance = toString (if ty = TOP_UP \<or> ty = BONUS then newTo else newFrom)\<rparr> \<and>
    users (db w') = users (db w) \<and> assets (db w') = assets (db w) \<and>
    wallets (db w') =
      map (\<lambda>x. if w_id x = w_id tw then x\<lparr>w_balance := to_decimal4 (toString newTo)\<rparr> else x)
        (map (\<lambda>x. if w_id x = w_id fw then x\<lparr>w_balance := to_decimal4 (toString newFrom)\<rparr>
                  else x)
           (wallets (db w))) \<and>
    transactions (db w') = transactions (db w) @
      [\<lparr>t_id = next_id w, t_idempotency_key = k, t_from_wallet_id = w_id fw,
        t_to_wallet_id = w_id tw, t_amount = to_decimal4 (toString a), t_type = ty,
        t_status = ''SUCCESS'', t_created_at = clock w\<rparr>] \<and>
    ledger_entries (db w') = ledger_entries (db w) @
      [\<lparr>l_id = next_id w + 1, l_transaction_id = next_id w, l_wallet_id = w_id fw,
        l_entry_type = DEBIT, l_amount = to_decimal4 (toString a),
        l_balance_after = to_decimal4 (toString newFrom), l_created_at = clock w\<rparr>,
       \<lparr>l_id = next_id w + 2, l_transaction_id = next_id w, l_wallet_id = w_id tw,
        l_entry_type = CREDIT, l_amount = to_decimal4 (toString a),
        l_balance_after = to_decimal4 (toString newTo), l_created_at = clock w\<rparr>] \<and>
    next_id w' = next_id w + 3"
proof -
  from transfer_chain [OF assms] obtain fw tw w5 w6 w7 w8 savedTx u1 u2 u3 where
    fw: "find (\<lambda>x. w_user_id x = f \<and> w_asset_id x = a_id asset) (wallets (db w)) = Some fw"
    and tw: "find (\<lambda>x. w_user_id x = t \<and> w_asset_id x = a_id asset) (wallets (db w)) = Some tw"
    and bal: "\<not> Number (w_balance fw) < 0" "\<not> Number (w_balance fw) < a"
    and u1: "wallet_update (w_id fw) (round_to_double (Number (w_balance fw) - a)) w5
               = (Inr u1, w6)"
    and u2: "wallet_update (w_id tw) (round_to_double (Number (w_balance tw) + a)) w6
               = (Inr u2, w7)"
    and c: "transaction_create k (w_id fw) (w_id tw) a ty ''SUCCESS'' w7 = (Inr savedTx, w8)"
    and l: "ledgerEntry_createMany
      [(t_id savedTx, w_id fw, DEBIT, a, round_to_double (Number (w_balance fw) - a)),
       (t_id savedTx, w_id tw, CREDIT, a, round_to_double (Number (w_balance tw) + a))] w8
      = (Inr u3, w')"
    and r: "r = \<lparr>status = ''SUCCESS'', txId = t_id savedTx,
          balance = toString (if ty = TOP_UP \<or> ty = BONUS
                              then round_to_double (Number (w_balance tw) + a)
                              else round_to_double (Number (w_balance fw) - a))\<rparr>"
    and w5: "db w5 = db w" "next_id w5 = next_id w" "clock w5 = clock w"
    by blast
  note f1 = wallet_update_frame [OF u1] and f2 = wallet_update_frame [OF u2]
  note i1 = wallet_update_Inr [OF u1] and i2 = wallet_update_Inr [OF u2]
  note ic = transaction_create_Inr [OF c]
  note il = ledgerEntry_createMany_Inr [OF l]
  have n7: "next_id w7 = next_id w" "clock w7 = clock w"
    using f1 f2 w5 by simp_all
  have n8: "next_id w8 = next_id w + 1" "clock w8 = clock w"
    using ic n7 transaction_create_frame [OF c] by simp_all
  have tid: "t_id savedTx = next_id w"
    using ic n7 by simp
  have db7: "db w7 = (db w)\<lparr>wallets :=
      map (\<lambda>x. if w_id x = w_id tw
                then x\<lparr>w_balance := to_decimal4 (toString (round_to_double
                                       (Number (w_balance tw) + a)))\<rparr> else x)
        (map (\<lambda>x. if w_id x = w_id fw
                  then x\<lparr>w_balance := to_decimal4 (toString (round_to_double
                                         (Number (w_balance fw) - a)))\<rparr> else x)
           (wallets (db w)))\<rparr>"
    using i1 i2 w5 by (simp del: map_map)
  have db8: "db w8 = (db w7)\<lparr>transactions := transactions (db w) @
      [\<lparr>t_id = next_id w, t_idempotency_key = k, t_from_wallet_id = w_id fw,
        t_to_wallet_id = w_id tw, t_amount = to_decimal4 (toString a), t_type = ty,
        t_status = ''SUCCESS'', t_created_at = clock w\<rparr>]\<rparr>"
    using ic n7 db7 by simp
  have db': "db w' = (db w8)\<lparr>ledger_entries := ledger_entries (db w) @
      [\<lparr>l_id = next_id w + 1, l_transaction_id = next_id w, l_wallet_id = w_id fw,
        l_entry_type = DEBIT, l_amount = to_decimal4 (toString a),
        l_balance_after = to_decimal4 (toString (round_to_double
                                       (Number (w_balance fw) - a))), l_created_at = clock w\<rparr>,
       \<lparr>l_id = next_id w + 2, l_transaction_id = next_id w, l_wallet_id = w_id tw,
        l_entry_type = CREDIT, l_amount = to_decimal4 (toString a),
        l_balance_after = to_decimal4 (toString (round_to_double
                                       (Number (w_balance tw) + a))), l_created_at = clock w\<rparr>]\<rparr>"
    using il n8 tid db8 db7 by simp
  have nxt: "next_id w' = next_id w + 3"
    using il n8 by simp
  have g1: "0 \<le> to_decimal4 (toString (round_to_double (Number (w_balance fw) - a)))"
    using i1 by simp
  have g2: "0 \<le> to_decimal4 (toString (round_to_double (Number (w_balance tw) + a)))"
    using i2 by simp
  have g3: "0 < to_decimal4 (toString a)" "length k \<le> 255"
    using ic by simp_all
  have r': "r = \<lparr>status = ''SUCCESS'', txId = next_id w,
          balance = toString (if ty = TOP_UP \<or> ty = BONUS
                              then round_to_double (Number (w_balance tw) + a)
                              else round_to_double (Number (w_balance fw) - a))\<rparr>"
    using r tid by simp
  have tables: "users (db w') = users (db w)" "assets (db w') = assets (db w)"
    "wallets (db w') = wallets (db w7)" "transactions (db w') = transactions (db w8)"
    by (simp_all add: db' db8 db7)
  show ?thesis
    apply (rule exI [where x = fw], rule exI [where x = tw])
    apply (rule exI [where x = "round_to_double (Number (w_balance fw) - a)"])
    apply (rule exI [where x = "round_to_double (Number (w_balance tw) + a)"])
    apply (intro conjI fw tw bal g1 g2 g3 r' tables(1,2) nxt refl)
      apply (simp add: tables db7 del: map_map)
     apply (simp add: tables db8)
    apply (simp add: db')
    done
qed

lemma transfer_frame:
  assumes "transfer k f t asset symbol a ty w = (r, w')"
  shows "fic w' = fic w \<and> treasuryId w' = treasuryId w \<and> clock w' = clock w \<and>
     next_id w \<le> next_id w'"
  using assms
  apply (simp add: transfer_def read_defs Let_def
      split: option.splits list.splits prod.splits sum.splits if_splits)
  apply (auto split: option.splits list.splits prod.splits sum.splits if_splits
      dest!: wallet_update_frame transaction_create_frame ledgerEntry_createMany_frame)
  done

lemma attempt_Inl:
  "prisma_transaction body w = (Inl e, w') \<Longrightarrow> db w' = db w"
  by (auto simp add: prisma_transaction_def log_stmt_def split: prod.splits sum.splits)

lemma attempt_frame:
  assumes "prisma_transaction (transfer k f t asset symbol a ty) w = (r, w')"
  shows "fic w' = fic w \<and> treasuryId w' = treasuryId w \<and> clock w' = clock w \<and>
     next_id w \<le> next_id w'"
proof (cases "transfer k f t asset symbol a ty (log_stmt Begin w)")
  case (Pair r0 w0)
  from transfer_frame [OF Pair] have "fic w0 = fic w \<and> treasuryId w0 = treasuryId w \<and> clock w0 = clock w \<and>
     next_id w \<le> next_id w0" by (simp add: log_stmt_def)
  with assms Pair show ?thesis
    by (auto simp add: prisma_transaction_def log_stmt_def split: sum.splits)
qed

lemma attempt_Inr_new:
  assumes "prisma_transaction (transfer k f t asset symbol a ty) w = (Inr r, w')"
    and "find (\<lambda>x. t_idempotency_key x = k) (transactions (db w)) = None"
  shows "\<exists>fw tw newFrom newTo.
    find (\<lambda>x. w_user_id x = f \<and> w_asset_id x = a_id asset) (wallets (db w)) = Some fw \<and>
    find (\<lambda>x. w_user_id x = t \<and> w_asset_id x = a_id asset) (wallets (db w)) = Some tw \<and>
    \<not> Number (w_balance fw) < 0 \<and> \<not> Number (w_balance fw) < a \<and>
    newFrom = round_to_double (Number (w_balance fw) - a) \<and>
    newTo = round_to_double (Number (w_balance tw) + a) \<and>
    0 \<le> to_decimal4 (toString newFrom) \<and> 0 \<le> to_decimal4 (toString newTo) \<and>
    0 < to_decimal4 (toString a) \<and> length k \<le> 255 \<and>
    r = \<lparr>status = ''SUCCESS'', txId = next_id w,
          balance = toString (if ty = TOP_UP \<or> ty = BONUS then newTo else newFrom)\<rparr> \<and>
    users (db w') = users (db w) \<and> assets (db w') = assets (db w) \<and>
    wallets (db w') =
      map (\<lambda>x. if w_id x = w_id tw then x\<lparr>w_balance := to_decimal4 (toString newTo)\<rparr> else x)
        (map (\<lambda>x. if w_id x = w_id fw then x\<lparr>w_balance := to_decimal4 (toString newFrom)\<rparr>
                  else x)
           (wallets (db w))) \<and>
    transactions (db w') = transactions (db w) @
      [\<lparr>t_id = next_id w, t_idempotency_key = k, t_from_wallet_id = w_id fw,
        t_to_wallet_id = w_id tw, t_amount = to_decimal4 (toString a), t_type = ty,
        t_status = ''SUCCESS'', t_created_at = clock w\<rparr>] \<and>
    ledger_entries (db w') = ledger_entries (db w) @
      [\<lparr>l_id = next_id w + 1, l_transaction_id = next_id w, l_wallet_id = w_id fw,
        l_entry_type = DEBIT, l_amount = to_decimal4 (toString a),
        l_balance_after = to_decimal4 (toString newFrom), l_created_at = clock w\<rparr>,
       \<lparr>l_id = next_id w + 2, l_transaction_id = next_id w, l_wallet_id = w_id tw,
        l_entry_type = CREDIT, l_amount = to_decimal4 (toString a),
        l_balance_after = to_decimal4 (toString newTo), l_created_at = clock w\<rparr>] \<and>
    next_id w' = next_id w + 3"
proof (cases "transfer k f t asset symbol a ty (log_stmt Begin w)")
  case (Pair r0 w0)
  with assms have r0: "r0 = Inr r" and w': "w' = log_stmt Commit w0"
    by (auto simp add: prisma_transaction_def split: sum.splits)
  have "find (\<lambda>x. t_idempotency_key x = k) (transactions (db (log_stmt Begin w))) = None"
    using assms(2) by (simp add: log_stmt_def)
  from transfer_Inr_new [OF Pair [unfolded r0] this] show ?thesis
    by (simp add: w' log_stmt_def)
qed

lemma attempt_duplicate:
  assumes "find (\<lambda>x. t_idempotency_key x = k) (transactions (db w)) = Some ex"
  shows "prisma_transaction (transfer k f t asset symbol a ty) w =
    (Inr \<lparr>status = ''SUCCESS'', txId = t_id ex, balance = 0\<rparr>,
     w\<lparr>ps_log := ps_log w @ [Begin, SetLockTimeout, TransactionFindUnique k, Commit]\<rparr>)"
proof -
  have "find (\<lambda>x. t_idempotency_key x = k) (transactions (db (log_stmt Begin w))) = Some ex"
    using assms by (simp add: log_stmt_def)
  from transfer_duplicate [OF this] show ?thesis
    by (simp add: prisma_transaction_def log_stmt_def)
qed

text \<open>The retry loop around the attempts of one transfer.\<close>

lemma retry_Inl:
  assumes "withRetry (prisma_transaction body) w = (Inl e, w', ds)"
  shows "db w' = db w"
  using assms 
  by (auto simp add: withRetry_unfold split: prod.splits sum.splits if_splits dest!: attempt_Inl)

lemma retry_frame:
  assumes "withRetry (prisma_transaction (transfer k f t asset symbol a ty)) w = (r, w', ds)"
  shows "fic w' = fic w \<and> treasuryId w' = treasuryId w \<and> clock w' = clock w \<and>
     next_id w \<le> next_id w'"
  using assms
  by (auto simp add: withRetry_unfold split: prod.splits sum.splits if_splits
      dest!: attempt_frame)

lemma retry_Inr:
  assumes "withRetry (prisma_transaction (transfer k f t asset symbol a ty)) w = (Inr r, w', ds)"
  shows "\<exists>w1. db w1 = db w \<and> clock w1 = clock w \<and> next_id w \<le> next_id w1 \<and>
     prisma_transaction (transfer k f t asset symbol a ty) w1 = (Inr r, w')"
proof -
  let ?fn = "prisma_transaction (transfer k f t asset symbol a ty)"
  have step: "\<And>s e s1. ?fn s = (Inl e, s1) \<Longrightarrow>
      db s1 = db s \<and> clock s1 = clock s \<and> next_id s \<le> next_id s1"
    using attempt_Inl attempt_frame by blast
  consider (first) "?fn w = (Inr r, w')"
    | (second) e1 s1 where "?fn w = (Inl e1, s1)" "?fn s1 = (Inr r, w')"
    | (third) e1 s1 e2 s2 where "?fn w = (Inl e1, s1)" "?fn s1 = (Inl e2, s2)" "?fn s2 = (Inr r, w')"
    using assms
    by (auto simp add: withRetry_unfold split: prod.splits sum.splits if_splits)
  then show ?thesis
  proof cases
    case first
    then show ?thesis by blast
  next
    case second
    with step [OF second(1)] show ?thesis by blast
  next
    case third
    from step [OF third(1)] step [OF third(2)]
    have "db s2 = db w \<and> clock s2 = clock w \<and> next_id w \<le> next_id s2" by simp
    with third(3) show ?thesis by blast
  qed
qed

text \<open>The ways \<open>executeTransaction\<close> can end.\<close>

lemma exec_invalid:
  assumes "\<forall>a. amount = Fin a \<longrightarrow> a \<le> 0 \<or> MAX_AMOUNT < a"
  shows "\<exists>m. executeTransaction k f t symbol amount ty w = (Inl (ValidationError m), w)"
  using assms by (cases amount) auto

lemma exec_unknown_asset:
  assumes "0 < a" "a \<le> MAX_AMOUNT" "find (\<lambda>x. a_symbol x = symbol) (assets (db w)) = None"
  shows "executeTransaction k f t symbol (Fin a) ty w =
     (Inl (NotFoundError (''Asset '' @ symbol @ '' not found'')),
      w\<lparr>ps_log := ps_log w @ [AssetFindUnique symbol]\<rparr>)"
  using assms by (simp add: asset_findUnique_def log_stmt_def)

lemma exec_cases:
  assumes "executeTransaction k f t symbol amount ty w = (r, w')"
  obtains (invalid) m where "r = Inl (ValidationError m)" "w' = w"
      "\<forall>a. amount = Fin a \<longrightarrow> a \<le> 0 \<or> MAX_AMOUNT < a"
    | (unknown) a where "amount = Fin a" "0 < a" "a \<le> MAX_AMOUNT"
      "find (\<lambda>x. a_symbol x = symbol) (assets (db w)) = None"
      "r = Inl (NotFoundError (''Asset '' @ symbol @ '' not found''))"
      "w' = w\<lparr>ps_log := ps_log w @ [AssetFindUnique symbol]\<rparr>"
    | (run) a asset ds where "amount = Fin a" "0 < a" "a \<le> MAX_AMOUNT"
      "find (\<lambda>x. a_symbol x = symbol) (assets (db w)) = Some asset"
      "withRetry (prisma_transaction (transfer k f t asset symbol a ty))
         (w\<lparr>ps_log := ps_log w @ [AssetFindUnique symbol]\<rparr>) = (r, w', ds)"
proof (cases amount)
  case (Fin a)
  show ?thesis
  proof (cases "a \<le> 0 \<or> MAX_AMOUNT < a")
    case True
    with Fin assms invalid show ?thesis by (auto split: if_splits)
  next
    case False
    show ?thesis
    proof (cases "find (\<lambda>x. a_symbol x = symbol) (assets (db w))")
      case None
      with False Fin assms unknown show ?thesis
        by (auto simp add: asset_findUnique_def log_stmt_def)
    next
      case (Some asset)
      with False Fin assms run [of a asset] show ?thesis
        by (auto simp add: asset_findUnique_def log_stmt_def split: prod.splits)
    qed
  qed
qed (use assms invalid in auto)

lemma exec_Inl_db:
  assumes "executeTransaction k f t symbol amount ty w = (Inl e, w')"
  shows "db w' = db w"
  using assms
proof (cases rule: exec_cases)
  case (run a asset ds)
  from retry_Inl [OF run(5)] show ?thesis by simp
qed simp_all

lemma exec_frame:
  assumes "executeTransaction k f t symbol amount ty w = (r, w')"
  shows "fic w' = fic w \<and> treasuryId w' = treasuryId w \<and> clock w' = clock w \<and> next_id w \<le> next_id w'"
  using assms
proof (cases rule: exec_cases)
  case (run a asset ds)
  from retry_frame [OF run(5)] show ?thesis by simp
qed simp_all

lemma exec_Inr:
  assumes "executeTransaction k f t symbol amount ty w = (Inr r, w')"
  shows "\<exists>a asset w1. amount = Fin a \<and> 0 < a \<and> a \<le> MAX_AMOUNT \<and>
     find (\<lambda>x. a_symbol x = symbol) (assets (db w)) = Some asset \<and>
     db w1 = db w \<and> clock w1 = clock w \<and> next_id w \<le> next_id w1 \<and>
     prisma_transaction (transfer k f t asset symbol a ty) w1 = (Inr r, w')"
  using assms
proof (cases rule: exec_cases)
  case (run a asset ds)
  from retry_Inr [OF run(5)] run(1-4) show ?thesis by auto
qed simp_all

lemma exec_duplicate:
  assumes "0 < a" "a \<le> MAX_AMOUNT"
    "find (\<lambda>x. a_symbol x = symbol) (assets (db w)) = Some asset"
    "find (\<lambda>x. t_idempotency_key x = k) (transactions (db w)) = Some ex"
  shows "executeTransaction k f t symbol (Fin a) ty w =
    (Inr \<lparr>status = ''SUCCESS'', txId = t_id ex, balance = 0\<rparr>,
     w\<lparr>ps_log := ps_log w @ [AssetFindUnique symbol, Begin, SetLockTimeout,
           TransactionFindUnique k, Commit]\<rparr>)"
proof -
  let ?w1 = "w\<lparr>ps_log := ps_log w @ [AssetFindUnique symbol]\<rparr>"
  have "find (\<lambda>x. t_idempotency_key x = k) (transactions (db ?w1)) = Some ex"
    using assms(4) by simp
  from attempt_duplicate [OF this, of f t asset symbol a ty]
  show ?thesis using assms(1-3)
    by (simp add: asset_findUnique_def log_stmt_def withRetry_unfold)
qed



text \<open>The top-up of Alice on the seeded store, and what the store holds after it.\<close>

lemma top_up_alice_run:
  "(case top_up_alice seed_world of
      (r, w1) \<Rightarrow>
        r = Inr \<lparr>status = ''SUCCESS'', txId = 0, balance = 200\<rparr> \<and>
        find (\<lambda>x. a_symbol x = ''GOLD'') (assets (db w1))
          = Some \<lparr>a_id = GOLD_ID, a_symbol = ''GOLD'', a_name = ''Gold Coins''\<rparr> \<and>
        find (\<lambda>x. t_idempotency_key x = ''k1'') (transactions (db w1))
          = Some \<lparr>t_id = 0, t_idempotency_key = ''k1'', t_from_wallet_id = ''wallet-1'',
                  t_to_wallet_id = ''wallet-3'', t_amount = 100, t_type = TOP_UP,
                  t_status = ''SUCCESS'', t_created_at = 0\<rparr> \<and>
        fst (top_up_alice w1) = Inr \<lparr>status = ''SUCCESS'', txId = 0, balance = 0\<rparr> \<and>
        fst (zero_top_up_alice w1)
          = Inl (ValidationError ''Amount must be a positive finite number''))"
  by code_simp

lemma top_up_alice_result:
  "fst (top_up_alice seed_world) = Inr \<lparr>status = ''SUCCESS'', txId = 0, balance = 200\<rparr>"
  using top_up_alice_run by (cases "top_up_alice seed_world") simp

lemma top_up_alice_replay:
  "fst (top_up_alice (snd (top_up_alice seed_world)))
     = Inr \<lparr>status = ''SUCCESS'', txId = 0, balance = 0\<rparr>"
  using top_up_alice_run by (cases "top_up_alice seed_world") simp

lemma after_top_up_gold:
  "find (\<lambda>x. a_symbol x = ''GOLD'') (assets (db (snd (top_up_alice seed_world))))
     = Some \<lparr>a_id = GOLD_ID, a_symbol = ''GOLD'', a_name = ''Gold Coins''\<rparr>"
  using top_up_alice_run by (cases "top_up_alice seed_world") simp

lemma after_top_up_k1:
  "find (\<lambda>x. t_idempotency_key x = ''k1'') (transactions (db (snd (top_up_alice seed_world))))
     = Some \<lparr>t_id = 0, t_idempotency_key = ''k1'', t_from_wallet_id = ''wallet-1'',
             t_to_wallet_id = ''wallet-3'', t_amount = 100, t_type = TOP_UP,
             t_status = ''SUCCESS'', t_created_at = 0\<rparr>"
  using top_up_alice_run by (cases "top_up_alice seed_world") simp

lemma zero_top_up_replay:
  "fst (zero_top_up_alice (snd (top_up_alice seed_world)))
     = Inl (ValidationError ''Amount must be a positive finite number'')"
  using top_up_alice_run by (cases "top_up_alice seed_world") simp


lemma seed_no_k1:
  "find (\<lambda>x. t_idempotency_key x = ''k1'') (transactions (db seed_world)) = None"
  by code_simp

lemma seed_ids_fresh: "ids_fresh seed_world"
  by code_simp








text \<open>
  A top-up of 0.00001 GOLD passes the validation of the amount and is rejected by the store:
  the amount is stored as 0.0000, which violates \<^verbatim>\<open>CHECK (amount > 0)\<close>, and the transaction is
  rolled back.
\<close>

lemma dust_top_up_rejected:
  "(case dust_top_up_alice seed_world of
      (r, w') \<Rightarrow> (r, map w_balance (wallets (db w')), transactions (db w'),
                   ledger_entries (db w')))
   = (Inl (StoreError (Some ''23514'')
         ''new row for relation transactions violates check constraint''),
      [1000000, 1000000, 100, 200, 30], [], [])"
  by code_simp





lemma seed_gold:
  "find (\<lambda>x. a_symbol x = ''GOLD'') (assets (db seed_world))
     = Some \<lparr>a_id = GOLD_ID, a_symbol = ''GOLD'', a_name = ''Gold Coins''\<rparr>"
  by code_simp







declare executeTransaction.simps [simp del]





lemma not_retryable_Error [simp]: "\<not> isRetryable (Error m)"
  by (simp add: isRetryable_def)





text \<open>
  Claim C4, as amended. When the store holds a transaction row with the idempotency key and
  the call passes the checks that precede the transaction (a valid amount and a known
  asset), \<open>executeTransaction\<close> returns, without an error, the status \<^verbatim>\<open>SUCCESS\<close>, the id of
  the stored row as \<open>txId\<close> and the fixed balance \<^verbatim>\<open>'0'\<close>; it sends only the asset lookup, the
  session setting and the lookup of the key inside one transaction, and leaves the tables,
  the pending store signals and the identifier source as they were.
\<close>

theorem executeTransaction_duplicate_key:
  assumes "0 < a" "a \<le> MAX_AMOUNT"
    and "find (\<lambda>x. a_symbol x = assetSymbol) (assets (db w)) = Some asset"
    and "find (\<lambda>x. t_idempotency_key x = idempotencyKey) (transactions (db w)) = Some existing"
  shows "\<exists>w'. executeTransaction idempotencyKey fromUserId toUserId assetSymbol (Fin a) type w
               = (Inr \<lparr>status = ''SUCCESS'', txId = t_id existing, balance = 0\<rparr>, w') \<and>
           db w' = db w \<and> faults w' = faults w \<and> next_id w' = next_id w \<and>
           ps_log w' = ps_log w @ [AssetFindUnique assetSymbol, Begin, SetLockTimeout,
                                   TransactionFindUnique idempotencyKey, Commit]"
  using exec_duplicate [OF assms] by simp

text \<open>
  The balance of the prior outcome is not returned: the top-up of Alice answers with the
  balance 200, and its replay under the same key with the balance 0.
\<close>

theorem executeTransaction_duplicate_key_counterexample:
  "fst (top_up_alice seed_world) = Inr \<lparr>status = ''SUCCESS'', txId = 0, balance = 200\<rparr> \<and>
   fst (top_up_alice (snd (top_up_alice seed_world)))
     = Inr \<lparr>status = ''SUCCESS'', txId = 0, balance = 0\<rparr> \<and>
   fst (top_up_alice (snd (top_up_alice seed_world))) \<noteq> fst (top_up_alice seed_world)"
  by (simp add: top_up_alice_result top_up_alice_replay)

theorem executeTransaction_duplicate_key_witness:
  "find (\<lambda>x. t_idempotency_key x = ''k1'') (transactions (db (snd (top_up_alice seed_world))))
     = Some \<lparr>t_id = 0, t_idempotency_key = ''k1'', t_from_wallet_id = ''wallet-1'',
             t_to_wallet_id = ''wallet-3'', t_amount = 100, t_type = TOP_UP,
             t_status = ''SUCCESS'', t_created_at = 0\<rparr> \<and>
   fst (executeTransaction ''k1'' BOB_ID TREASURY_ID ''GOLD'' (Fin 5) SPEND
          (snd (top_up_alice seed_world)))
     = Inr \<lparr>status = ''SUCCESS'', txId = 0, balance = 0\<rparr> \<and>
   db (snd (executeTransaction ''k1'' BOB_ID TREASURY_ID ''GOLD'' (Fin 5) SPEND
          (snd (top_up_alice seed_world))))
     = db (snd (top_up_alice seed_world))"
proof -
  have amount: "(0 :: rat) < 5" "5 \<le> MAX_AMOUNT"
    by (simp_all add: MAX_AMOUNT_def)
  from executeTransaction_duplicate_key [OF amount after_top_up_gold after_top_up_k1,
      of BOB_ID TREASURY_ID SPEND]
  obtain w' where
    "executeTransaction ''k1'' BOB_ID TREASURY_ID ''GOLD'' (Fin 5) SPEND
       (snd (top_up_alice seed_world))
     = (Inr \<lparr>status = ''SUCCESS'', txId = 0, balance = 0\<rparr>, w')"
    "db w' = db (snd (top_up_alice seed_world))"
    by auto
  with after_top_up_k1 show ?thesis by simp
qed

lemma find_snoc:
  assumes "find P xs = None" "P x"
  shows "find P (xs @ [x]) = Some x"
  using assms by (induction xs) (auto split: if_splits)

lemma filter_find_None:
  "find P xs = None \<Longrightarrow> filter P xs = []"
  by (simp add: find_None_iff filter_empty_conv)

text \<open>
  Claim C2, as amended. Let a first call of \<open>executeTransaction\<close> succeed under a key the
  store did not hold, in a store with fresh identifiers. Then a second call with the same
  key, whatever its other arguments, leaves the tables as the first call left them, with
  exactly one transaction row for the key and exactly two ledger rows for that transaction.
  Whenever the second call returns a result, it reports the \<open>txId\<close> of the first; it does so
  when its amount is valid and its asset symbol is known, and it fails, reporting no
  \<open>txId\<close>, when the amount is invalid or the asset unknown.
\<close>

theorem executeTransaction_idempotent:
  assumes first: "executeTransaction idempotencyKey fromUserId toUserId assetSymbol amount type w
                    = (Inr r1, w1)"
    and new: "find (\<lambda>x. t_idempotency_key x = idempotencyKey) (transactions (db w)) = None"
    and fresh: "ids_fresh w"
    and second: "executeTransaction idempotencyKey fromUserId2 toUserId2 assetSymbol2 amount2
                   type2 w1 = (res2, w2)"
  shows "db w2 = db w1 \<and>
         length (filter (\<lambda>x. t_idempotency_key x = idempotencyKey) (transactions (db w2))) = 1 \<and>
         length (filter (\<lambda>e. l_transaction_id e = txId r1) (ledger_entries (db w2))) = 2 \<and>
         (\<forall>r2. res2 = Inr r2 \<longrightarrow> txId r2 = txId r1) \<and>
         ((\<exists>a. amount2 = Fin a \<and> 0 < a \<and> a \<le> MAX_AMOUNT) \<and>
          find (\<lambda>x. a_symbol x = assetSymbol2) (assets (db w)) \<noteq> None
          \<longrightarrow> (\<exists>r2. res2 = Inr r2 \<and> txId r2 = txId r1)) \<and>
         ((\<forall>a. amount2 = Fin a \<longrightarrow> a \<le> 0 \<or> MAX_AMOUNT < a) \<or>
          find (\<lambda>x. a_symbol x = assetSymbol2) (assets (db w)) = None
          \<longrightarrow> (\<exists>e. res2 = Inl e))"
proof -
  from exec_Inr [OF first] obtain a asset s1 where
    s1: "db s1 = db w" "next_id w \<le> next_id s1"
    and run: "prisma_transaction
                (transfer idempotencyKey fromUserId toUserId asset assetSymbol a type) s1
              = (Inr r1, w1)"
    by blast
  from new s1(1) have
    "find (\<lambda>x. t_idempotency_key x = idempotencyKey) (transactions (db s1)) = None"
    by simp
  from attempt_Inr_new [OF run this] obtain row e1 e2 where
    r1: "txId r1 = next_id s1"
    and assets: "assets (db w1) = assets (db w)"
    and txs: "transactions (db w1) = transactions (db w) @ [row]"
    and row: "t_id row = next_id s1" "t_idempotency_key row = idempotencyKey"
    and les: "ledger_entries (db w1) = ledger_entries (db w) @ [e1, e2]"
    and es: "l_transaction_id e1 = next_id s1" "l_transaction_id e2 = next_id s1"
    using s1(1) by fastforce
  have stored: "find (\<lambda>x. t_idempotency_key x = idempotencyKey) (transactions (db w1)) = Some row"
    unfolding txs using new row(2) by (rule find_snoc)
  have one: "length (filter (\<lambda>x. t_idempotency_key x = idempotencyKey) (transactions (db w1))) = 1"
    by (simp add: txs filter_find_None [OF new] row(2))
  from fresh s1(2) have "\<forall>e \<in> set (ledger_entries (db w)). l_transaction_id e \<noteq> next_id s1"
    by (auto simp add: ids_fresh_def)
  then have "filter (\<lambda>e. l_transaction_id e = next_id s1) (ledger_entries (db w)) = []"
    by (simp add: filter_empty_conv)
  then have two: "length (filter (\<lambda>e. l_transaction_id e = txId r1) (ledger_entries (db w1))) = 2"
    by (simp add: les r1 es)
  from second show ?thesis
  proof (cases rule: exec_cases)
    case (invalid m)
    with one two show ?thesis by auto
  next
    case (unknown a2)
    with one two assets show ?thesis by auto
  next
    case (run a2 asset2 ds)
    let ?w = "w1\<lparr>ps_log := ps_log w1 @ [AssetFindUnique assetSymbol2]\<rparr>"
    have "find (\<lambda>x. t_idempotency_key x = idempotencyKey) (transactions (db ?w)) = Some row"
      using stored by simp
    from attempt_duplicate [OF this, of fromUserId2 toUserId2 asset2 assetSymbol2 a2 type2] run(5)
    have "res2 = Inr \<lparr>status = ''SUCCESS'', txId = t_id row, balance = 0\<rparr>" "db w2 = db w1"
      by (auto simp add: withRetry_unfold)
    with one two run(1-4) assets row(1) r1 show ?thesis by auto
  qed
qed

text \<open>
  With arbitrary arguments the two calls need not report the same \<open>txId\<close>, and there need
  not be a transaction row at all: the replay of Alice's top-up with the amount 0 fails
  validation, and Bob's overspend fails twice and leaves no row for its key.
\<close>

theorem executeTransaction_idempotent_counterexample:
  "fst (top_up_alice seed_world) = Inr \<lparr>status = ''SUCCESS'', txId = 0, balance = 200\<rparr> \<and>
   fst (zero_top_up_alice (snd (top_up_alice seed_world)))
     = Inl (ValidationError ''Amount must be a positive finite number'') \<and>
   fst (overspend_bob seed_world) = Inl (Error ''Insufficient funds.'') \<and>
   fst (overspend_bob (snd (overspend_bob seed_world))) = Inl (Error ''Insufficient funds.'') \<and>
   transactions (db (snd (overspend_bob (snd (overspend_bob seed_world))))) = []"
  by (intro conjI top_up_alice_result zero_top_up_replay) code_simp+

theorem executeTransaction_idempotent_witness:
  "fst (top_up_alice seed_world) = Inr \<lparr>status = ''SUCCESS'', txId = 0, balance = 200\<rparr> \<and>
   find (\<lambda>x. t_idempotency_key x = ''k1'') (transactions (db seed_world)) = None \<and>
   ids_fresh seed_world \<and>
   length (filter (\<lambda>x. t_idempotency_key x = ''k1'')
     (transactions (db (snd (top_up_alice (snd (top_up_alice seed_world))))))) = 1 \<and>
   length (filter (\<lambda>e. l_transaction_id e = 0)
     (ledger_entries (db (snd (top_up_alice (snd (top_up_alice seed_world))))))) = 2 \<and>
   txId (projr (fst (top_up_alice (snd (top_up_alice seed_world))))) = 0"
proof -
  have run: "executeTransaction ''k1'' TREASURY_ID ALICE_ID ''GOLD'' (Fin 100) TOP_UP seed_world
      = (Inr \<lparr>status = ''SUCCESS'', txId = 0, balance = 200\<rparr>, snd (top_up_alice seed_world))"
    using top_up_alice_result by (simp add: top_up_alice_def prod_eq_iff)
  have again: "executeTransaction ''k1'' TREASURY_ID ALICE_ID ''GOLD'' (Fin 100) TOP_UP
        (snd (top_up_alice seed_world))
      = (fst (top_up_alice (snd (top_up_alice seed_world))),
         snd (top_up_alice (snd (top_up_alice seed_world))))"
    by (simp add: top_up_alice_def)
  have valid: "\<exists>a. Fin 100 = Fin a \<and> 0 < a \<and> a \<le> MAX_AMOUNT"
    by (simp add: MAX_AMOUNT_def)
  from executeTransaction_idempotent [OF run seed_no_k1 seed_ids_fresh again] valid seed_gold
  have "length (filter (\<lambda>x. t_idempotency_key x = ''k1'')
     (transactions (db (snd (top_up_alice (snd (top_up_alice seed_world))))))) = 1 \<and>
   length (filter (\<lambda>e. l_transaction_id e = 0)
     (ledger_entries (db (snd (top_up_alice (snd (top_up_alice seed_world))))))) = 2 \<and>
   txId (projr (fst (top_up_alice (snd (top_up_alice seed_world))))) = 0"
    by auto
  with top_up_alice_result seed_no_k1 seed_ids_fresh show ?thesis by simp
qed

lemma safeParse_bad_amount:
  assumes "\<forall>a. b_amount b = Some (Fin a) \<longrightarrow> a \<le> 0 \<or> MAX_AMOUNT < a"
  shows "safeParse b = None"
  using assms
  by (auto simp add: safeParse_def split: option.splits number.splits)

lemma process_reserved:
  assumes "key \<noteq> []" "fic w (''idempotency:'' @ key) = None"
  shows "checkAndReserveIdempotencyKey key w
     = (None, w\<lparr>fic := (fic w)(''idempotency:'' @ key \<mapsto> PROCESSING None)\<rparr>)"
  using assms by (simp add: checkAndReserveIdempotencyKey_def redis_set_nx_def)

text \<open>
  Claim C5, as amended. An amount that is not strictly positive, not finite or greater than
  \<open>MAX_AMOUNT\<close> makes \<open>executeTransaction\<close> fail with a validation error and leave the world
  untouched: no statement is sent to the store. A valid amount with an asset symbol that
  resolves to no asset fails with a not-found error after the asset lookup, the only
  statement sent, and before any transaction is opened. At the controller, a body whose
  amount is invalid is answered with status 400 before any statement is sent; only the
  idempotency cache is written. Equal endpoints are not among the checks.
\<close>

theorem validation_fails_fast:
  "((\<forall>a. amount = Fin a \<longrightarrow> a \<le> 0 \<or> MAX_AMOUNT < a) \<longrightarrow>
      (\<exists>m. executeTransaction idempotencyKey fromUserId toUserId assetSymbol amount type w
             = (Inl (ValidationError m), w))) \<and>
   (0 < a \<and> a \<le> MAX_AMOUNT \<and>
    find (\<lambda>x. a_symbol x = assetSymbol) (assets (db w)) = None \<longrightarrow>
      executeTransaction idempotencyKey fromUserId toUserId assetSymbol (Fin a) type w
        = (Inl (NotFoundError (''Asset '' @ assetSymbol @ '' not found'')),
           w\<lparr>ps_log := ps_log w @ [AssetFindUnique assetSymbol]\<rparr>)) \<and>
   (idempotencyKey \<noteq> [] \<and> fic w (''idempotency:'' @ idempotencyKey) = None \<and>
    (\<forall>a. b_amount body = Some (Fin a) \<longrightarrow> a \<le> 0 \<or> MAX_AMOUNT < a) \<longrightarrow>
      processTransaction \<lparr>req_idempotency_key = Some idempotencyKey, req_body = body\<rparr> w
        = (\<lparr>res_status = 400, res_json = ValidationFailedResponse\<rparr>,
           w\<lparr>fic := (fic w)(''idempotency:'' @ idempotencyKey \<mapsto>
                  FAILED ''Validation failed'')\<rparr>))"
proof (intro conjI impI)
  assume "\<forall>a. amount = Fin a \<longrightarrow> a \<le> 0 \<or> MAX_AMOUNT < a"
  then show "\<exists>m. executeTransaction idempotencyKey fromUserId toUserId assetSymbol amount type w
             = (Inl (ValidationError m), w)"
    by (rule exec_invalid)
next
  assume "0 < a \<and> a \<le> MAX_AMOUNT \<and>
    find (\<lambda>x. a_symbol x = assetSymbol) (assets (db w)) = None"
  then show "executeTransaction idempotencyKey fromUserId toUserId assetSymbol (Fin a) type w
        = (Inl (NotFoundError (''Asset '' @ assetSymbol @ '' not found'')),
           w\<lparr>ps_log := ps_log w @ [AssetFindUnique assetSymbol]\<rparr>)"
    using exec_unknown_asset by blast
next
  assume h: "idempotencyKey \<noteq> [] \<and> fic w (''idempotency:'' @ idempotencyKey) = None \<and>
    (\<forall>a. b_amount body = Some (Fin a) \<longrightarrow> a \<le> 0 \<or> MAX_AMOUNT < a)"
  then have "safeParse body = None"
    using safeParse_bad_amount by blast
  with h show "processTransaction \<lparr>req_idempotency_key = Some idempotencyKey, req_body = body\<rparr> w
        = (\<lparr>res_status = 400, res_json = ValidationFailedResponse\<rparr>,
           w\<lparr>fic := (fic w)(''idempotency:'' @ idempotencyKey \<mapsto>
                  FAILED ''Validation failed'')\<rparr>)"
    by (simp add: processTransaction_def process_reserved saveIdempotencyResult_def)
qed

lemma seed_no_silver:
  "find (\<lambda>x. a_symbol x = ''SILVER'') (assets (db seed_world)) = None"
  by code_simp

theorem validation_fails_fast_witness:
  "nan_top_up_alice seed_world
     = (Inl (ValidationError ''Amount must be a positive finite number''), seed_world) \<and>
   fst (silver_top_up_alice seed_world) = Inl (NotFoundError ''Asset SILVER not found'') \<and>
   ps_log (snd (silver_top_up_alice seed_world)) = [AssetFindUnique ''SILVER''] \<and>
   db (snd (silver_top_up_alice seed_world)) = db seed_world \<and>
   fst (processTransaction negative_amount_request seed_world)
     = \<lparr>res_status = 400, res_json = ValidationFailedResponse\<rparr> \<and>
   ps_log (snd (processTransaction negative_amount_request seed_world)) = [] \<and>
   db (snd (processTransaction negative_amount_request seed_world)) = db seed_world"
proof -
  note inst = validation_fails_fast [where w = seed_world and idempotencyKey = "''k7''"
      and body = "\<lparr>b_userId = Some ALICE_ID, b_type = Some ''TOP_UP'',
        b_amount = Some (Fin (- 5)), b_assetSymbol = Some ''GOLD''\<rparr>"
      and fromUserId = TREASURY_ID and toUserId = ALICE_ID and type = TOP_UP and amount = NaN
      and a = 1]
  have "\<forall>a. NaN = Fin a \<longrightarrow> a \<le> 0 \<or> MAX_AMOUNT < a"
    by simp
  with inst [where assetSymbol = "''GOLD''"] obtain m where
    "nan_top_up_alice seed_world = (Inl (ValidationError m), seed_world)"
    unfolding nan_top_up_alice_def by blast
  moreover have "fst (nan_top_up_alice seed_world)
      = Inl (ValidationError ''Amount must be a positive finite number'')"
    by code_simp
  ultimately have nan: "nan_top_up_alice seed_world
     = (Inl (ValidationError ''Amount must be a positive finite number''), seed_world)"
    by simp
  have "(0::rat) < 1 \<and> 1 \<le> MAX_AMOUNT \<and>
      find (\<lambda>x. a_symbol x = ''SILVER'') (assets (db seed_world)) = None"
    by (simp add: MAX_AMOUNT_def seed_no_silver)
  with inst [where assetSymbol = "''SILVER''"] have
    "silver_top_up_alice seed_world
       = (Inl (NotFoundError (''Asset '' @ ''SILVER'' @ '' not found'')),
          seed_world\<lparr>ps_log := ps_log seed_world @ [AssetFindUnique ''SILVER'']\<rparr>)"
    unfolding silver_top_up_alice_def by blast
  then have silver:
    "fst (silver_top_up_alice seed_world) = Inl (NotFoundError ''Asset SILVER not found'') \<and>
     ps_log (snd (silver_top_up_alice seed_world)) = [AssetFindUnique ''SILVER''] \<and>
     db (snd (silver_top_up_alice seed_world)) = db seed_world"
    by (simp add: seed_world_def)
  have "''k7'' \<noteq> [] \<and> fic seed_world (''idempotency:'' @ ''k7'') = None \<and>
    (\<forall>a. b_amount \<lparr>b_userId = Some ALICE_ID, b_type = Some ''TOP_UP'',
        b_amount = Some (Fin (- 5)), b_assetSymbol = Some ''GOLD''\<rparr> = Some (Fin a)
       \<longrightarrow> a \<le> 0 \<or> MAX_AMOUNT < a)"
    by (simp add: seed_world_def)
  with inst [where assetSymbol = "''GOLD''"] have "processTransaction negative_amount_request seed_world
        = (\<lparr>res_status = 400, res_json = ValidationFailedResponse\<rparr>,
           seed_world\<lparr>fic := (fic seed_world)(''idempotency:'' @ ''k7'' \<mapsto>
                  FAILED ''Validation failed'')\<rparr>)"
    unfolding negative_amount_request_def by blast
  then have "fst (processTransaction negative_amount_request seed_world)
     = \<lparr>res_status = 400, res_json = ValidationFailedResponse\<rparr> \<and>
   ps_log (snd (processTransaction negative_amount_request seed_world)) = [] \<and>
   db (snd (processTransaction negative_amount_request seed_world)) = db seed_world"
    by (simp add: seed_world_def)
  with nan silver show ?thesis by simp
qed

lemma treasury_self_top_up_run:
  "(case processTransaction treasury_self_top_up seed_world of
      (res, w1) \<Rightarrow>
        res = \<lparr>res_status = 200,
                res_json = TransactionResult
                  \<lparr>status = ''SUCCESS'', txId = 0, balance = 1000100\<rparr>\<rparr> \<and>
        ps_log w1
          = [UserFindUniqueByEmail ''treasury@system.internal'', AssetFindUnique ''GOLD'',
             Begin, SetLockTimeout, TransactionFindUnique ''k9'',
             SelectWalletsForUpdate TREASURY_ID TREASURY_ID GOLD_ID,
             WalletFindUnique TREASURY_ID GOLD_ID, WalletFindUnique TREASURY_ID GOLD_ID,
             WalletUpdate ''wallet-1'' 999900, WalletUpdate ''wallet-1'' 1000100,
             TransactionCreate ''k9'', LedgerEntryCreateMany 2, Commit] \<and>
        map w_balance (wallets (db w1)) = [1000100, 1000000, 100, 200, 30] \<and>
        map t_from_wallet_id (transactions (db w1)) = [''wallet-1''] \<and>
        map t_to_wallet_id (transactions (db w1)) = [''wallet-1''])"
  by code_simp

text \<open>
  A request whose resolved from-user equals its to-user is not rejected: a top-up for the
  treasury itself is answered with status 200 after the full sequence of statements, with
  one wallet debited and then credited and a transaction from the wallet to itself.
\<close>

theorem equal_endpoints_counterexample:
  "fst (processTransaction treasury_self_top_up seed_world)
     = \<lparr>res_status = 200,
        res_json = TransactionResult \<lparr>status = ''SUCCESS'', txId = 0, balance = 1000100\<rparr>\<rparr> \<and>
   ps_log (snd (processTransaction treasury_self_top_up seed_world))
     = [UserFindUniqueByEmail ''treasury@system.internal'', AssetFindUnique ''GOLD'', Begin,
        SetLockTimeout, TransactionFindUnique ''k9'',
        SelectWalletsForUpdate TREASURY_ID TREASURY_ID GOLD_ID,
        WalletFindUnique TREASURY_ID GOLD_ID, WalletFindUnique TREASURY_ID GOLD_ID,
        WalletUpdate ''wallet-1'' 999900, WalletUpdate ''wallet-1'' 1000100,
        TransactionCreate ''k9'', LedgerEntryCreateMany 2, Commit] \<and>
   map w_balance (wallets (db (snd (processTransaction treasury_self_top_up seed_world))))
     = [1000100, 1000000, 100, 200, 30] \<and>
   map t_from_wallet_id
     (transactions (db (snd (processTransaction treasury_self_top_up seed_world))))
     = [''wallet-1''] \<and>
   map t_to_wallet_id
     (transactions (db (snd (processTransaction treasury_self_top_up seed_world))))
     = [''wallet-1'']"
  using treasury_self_top_up_run
  by (cases "processTransaction treasury_self_top_up seed_world") simp

lemma replay_cached:
  assumes "idempotencyKey \<noteq> []" "fic w (''idempotency:'' @ idempotencyKey) = Some cached"
  shows "processTransaction \<lparr>req_idempotency_key = Some idempotencyKey, req_body = body\<rparr> w
     = (case cached of
          PROCESSING msg \<Rightarrow>
            (\<lparr>res_status = 409,
              res_json = ErrorResponse
                ''Transaction is currently processing. Please retry later.''\<rparr>, w)
        | SUCCESS t b \<Rightarrow> (\<lparr>res_status = 200, res_json = CachedReplay cached True\<rparr>, w)
        | FAILED msg \<Rightarrow> (\<lparr>res_status = 200, res_json = CachedReplay cached True\<rparr>, w))"
  using assms
  by (simp add: processTransaction_def checkAndReserveIdempotencyKey_def
      split: CachedResponse.splits)

lemma first_failure_cached:
  assumes key: "idempotencyKey \<noteq> []"
    and fresh: "fic w (''idempotency:'' @ idempotencyKey) = None"
    and run: "processTransaction \<lparr>req_idempotency_key = Some idempotencyKey, req_body = body\<rparr> w
                = (res, w1)"
    and failed: "res_status res \<noteq> 200"
  shows "(res_status res = 400 \<or> res_status res = 500) \<and>
         (\<exists>e. fic w1 (''idempotency:'' @ idempotencyKey) = Some (FAILED e))"
  using key run failed
  by (auto simp add: processTransaction_def process_reserved [OF key fresh] catch_block_def
      saveIdempotencyResult_def Let_def
      split: option.splits prod.splits sum.splits if_splits)

text \<open>
  Claim C10. For a request with a non-empty idempotency key: when the cache holds a FAILED
  outcome for the key, the request is answered with status 200 and the body of the cached
  outcome with \<^verbatim>\<open>_cached: true\<close>, and nothing else happens; for any cached value the status of the
  replay differs from 200 exactly when the value is PROCESSING, and is then 409; and when a
  first request under a key that was not cached is answered with another status than 200,
  that status is 400 or 500, the cache then holds a FAILED outcome, and every later request
  with the key is answered with status 200 and that outcome.
\<close>

theorem replay_of_cached_outcome:
  assumes key: "idempotencyKey \<noteq> []"
  shows
   "(fic w (''idempotency:'' @ idempotencyKey) = Some (FAILED m) \<longrightarrow>
       processTransaction \<lparr>req_idempotency_key = Some idempotencyKey, req_body = body\<rparr> w
         = (\<lparr>res_status = 200, res_json = CachedReplay (FAILED m) True\<rparr>, w)) \<and>
    (fic w (''idempotency:'' @ idempotencyKey) = Some cached \<longrightarrow>
       (res_status (fst (processTransaction
           \<lparr>req_idempotency_key = Some idempotencyKey, req_body = body\<rparr> w)) \<noteq> 200)
         = (\<exists>msg. cached = PROCESSING msg) \<and>
       ((\<exists>msg. cached = PROCESSING msg) \<longrightarrow>
          res_status (fst (processTransaction
            \<lparr>req_idempotency_key = Some idempotencyKey, req_body = body\<rparr> w)) = 409)) \<and>
    (fic w (''idempotency:'' @ idempotencyKey) = None \<and>
     processTransaction \<lparr>req_idempotency_key = Some idempotencyKey, req_body = body\<rparr> w
       = (res, w1) \<and>
     res_status res \<noteq> 200 \<longrightarrow>
       (res_status res = 400 \<or> res_status res = 500) \<and>
       (\<exists>e. fic w1 (''idempotency:'' @ idempotencyKey) = Some (FAILED e) \<and>
            (\<forall>body'. processTransaction
                \<lparr>req_idempotency_key = Some idempotencyKey, req_body = body'\<rparr> w1
              = (\<lparr>res_status = 200, res_json = CachedReplay (FAILED e) True\<rparr>, w1))))"
proof (intro conjI impI)
  assume "fic w (''idempotency:'' @ idempotencyKey) = Some (FAILED m)"
  from replay_cached [OF key this]
  show "processTransaction \<lparr>req_idempotency_key = Some idempotencyKey, req_body = body\<rparr> w
         = (\<lparr>res_status = 200, res_json = CachedReplay (FAILED m) True\<rparr>, w)"
    by simp
next
  assume c: "fic w (''idempotency:'' @ idempotencyKey) = Some cached"
  from replay_cached [OF key c, of body]
  show "(res_status (fst (processTransaction
           \<lparr>req_idempotency_key = Some idempotencyKey, req_body = body\<rparr> w)) \<noteq> 200)
         = (\<exists>msg. cached = PROCESSING msg)"
    by (cases cached) simp_all
next
  assume c: "fic w (''idempotency:'' @ idempotencyKey) = Some cached"
    and p: "\<exists>msg. cached = PROCESSING msg"
  from replay_cached [OF key c, of body] p
  show "res_status (fst (processTransaction
            \<lparr>req_idempotency_key = Some idempotencyKey, req_body = body\<rparr> w)) = 409"
    by auto
next
  assume h: "fic w (''idempotency:'' @ idempotencyKey) = None \<and>
     processTransaction \<lparr>req_idempotency_key = Some idempotencyKey, req_body = body\<rparr> w
       = (res, w1) \<and>
     res_status res \<noteq> 200"
  from first_failure_cached [OF key] h
  show "res_status res = 400 \<or> res_status res = 500"
    by blast
next
  assume h: "fic w (''idempotency:'' @ idempotencyKey) = None \<and>
     processTransaction \<lparr>req_idempotency_key = Some idempotencyKey, req_body = body\<rparr> w
       = (res, w1) \<and>
     res_status res \<noteq> 200"
  from first_failure_cached [OF key] h obtain e where
    e: "fic w1 (''idempotency:'' @ idempotencyKey) = Some (FAILED e)"
    by blast
  have "processTransaction \<lparr>req_idempotency_key = Some idempotencyKey, req_body = body'\<rparr> w1
          = (\<lparr>res_status = 200, res_json = CachedReplay (FAILED e) True\<rparr>, w1)" for body'
    using replay_cached [OF key e, of body'] by simp
  with e show "\<exists>e. fic w1 (''idempotency:'' @ idempotencyKey) = Some (FAILED e) \<and>
            (\<forall>body'. processTransaction
                \<lparr>req_idempotency_key = Some idempotencyKey, req_body = body'\<rparr> w1
              = (\<lparr>res_status = 200, res_json = CachedReplay (FAILED e) True\<rparr>, w1))"
    by blast
qed

lemma bob_overspend_first:
  "fst (processTransaction bob_overspend_request seed_world)
     = \<lparr>res_status = 400, res_json = FailedResult ''Insufficient funds.''\<rparr>"
  by code_simp

lemma bob_overspend_cached:
  "fic (snd (processTransaction bob_overspend_request seed_world)) (''idempotency:'' @ ''k3'')
     = Some (FAILED ''Insufficient funds.'')"
  by code_simp

theorem replay_of_cached_outcome_witness:
  "fic seed_world (''idempotency:'' @ ''k3'') = None \<and>
   fst (processTransaction bob_overspend_request seed_world)
     = \<lparr>res_status = 400, res_json = FailedResult ''Insufficient funds.''\<rparr> \<and>
   fic (snd (processTransaction bob_overspend_request seed_world)) (''idempotency:'' @ ''k3'')
     = Some (FAILED ''Insufficient funds.'') \<and>
   fst (processTransaction bob_overspend_request
          (snd (processTransaction bob_overspend_request seed_world)))
     = \<lparr>res_status = 200, res_json = CachedReplay (FAILED ''Insufficient funds.'') True\<rparr>"
proof -
  let ?w1 = "snd (processTransaction bob_overspend_request seed_world)"
  have key: "''k3'' \<noteq> []" by simp
  have fresh: "fic seed_world (''idempotency:'' @ ''k3'') = None"
    by (simp add: seed_world_def)
  have run: "processTransaction
      \<lparr>req_idempotency_key = Some ''k3'', req_body = req_body bob_overspend_request\<rparr> seed_world
      = (fst (processTransaction bob_overspend_request seed_world), ?w1)"
    by (simp add: bob_overspend_request_def)
  have failed: "res_status (fst (processTransaction bob_overspend_request seed_world)) \<noteq> 200"
    by (simp add: bob_overspend_first)
  from replay_of_cached_outcome [OF key, of seed_world _ "req_body bob_overspend_request" _
      "fst (processTransaction bob_overspend_request seed_world)" ?w1] fresh run failed
  obtain e where e: "fic ?w1 (''idempotency:'' @ ''k3'') = Some (FAILED e)"
    and replay: "\<And>body'. processTransaction \<lparr>req_idempotency_key = Some ''k3'', req_body = body'\<rparr> ?w1
              = (\<lparr>res_status = 200, res_json = CachedReplay (FAILED e) True\<rparr>, ?w1)"
    by blast
  from e bob_overspend_cached have "e = ''Insufficient funds.''"
    by simp
  with replay [of "req_body bob_overspend_request"]
  have "fst (processTransaction bob_overspend_request ?w1)
     = \<lparr>res_status = 200, res_json = CachedReplay (FAILED ''Insufficient funds.'') True\<rparr>"
    by (simp add: bob_overspend_request_def)
  with fresh bob_overspend_first bob_overspend_cached show ?thesis
    by simp
qed

section \<open>Verification: the canonical lock order\<close>

lemma transfer_locking_read:
  assumes "find (\<lambda>x. t_idempotency_key x = k) (transactions (db w)) = None"
  shows "\<exists>rest. ps_log (snd (transfer k f t asset symbol a ty w))
           = ps_log w @ [SetLockTimeout, TransactionFindUnique k,
                         SelectWalletsForUpdate (fst (lock_order f t)) (snd (lock_order f t))
                           (a_id asset)] @ rest"
  using assms
  by (auto simp add: transfer_def store_defs Let_def split_beta
      split: option.splits list.splits prod.splits sum.splits)

text \<open>
  Claim C7. The pair of user ids of the locking read is the sorted pair of \<open>fromUserId\<close> and
  \<open>toUserId\<close>: it is the same pair when the two ids are swapped, its first component is at
  most its second, and it consists of the two ids. Whenever the key is new, the third
  statement of the transaction, after the session setting and the lookup of the key, is the
  locking read on exactly that pair, so two transfers between the same users, in either
  direction, name the locks in the same order.
\<close>

theorem lock_order_canonical:
  "lock_order fromUserId toUserId = lock_order toUserId fromUserId \<and>
   fst (lock_order fromUserId toUserId) \<le> snd (lock_order fromUserId toUserId) \<and>
   {fst (lock_order fromUserId toUserId), snd (lock_order fromUserId toUserId)}
     = {fromUserId, toUserId} \<and>
   (find (\<lambda>x. t_idempotency_key x = idempotencyKey) (transactions (db w)) = None \<longrightarrow>
      (\<exists>lockA lockB rest.
         (lockA, lockB) = lock_order fromUserId toUserId \<and>
         ps_log (snd (transfer idempotencyKey fromUserId toUserId asset assetSymbol amount type
                        w))
           = ps_log w @ [SetLockTimeout, TransactionFindUnique idempotencyKey,
                         SelectWalletsForUpdate lockA lockB (a_id asset)] @ rest))"
proof -
  have "\<exists>lockA lockB rest.
         (lockA, lockB) = lock_order fromUserId toUserId \<and>
         ps_log (snd (transfer idempotencyKey fromUserId toUserId asset assetSymbol amount type
                        w))
           = ps_log w @ [SetLockTimeout, TransactionFindUnique idempotencyKey,
                         SelectWalletsForUpdate lockA lockB (a_id asset)] @ rest"
    if "find (\<lambda>x. t_idempotency_key x = idempotencyKey) (transactions (db w)) = None"
    using transfer_locking_read [OF that, of fromUserId toUserId asset assetSymbol amount type]
    by (metis prod.collapse)
  then show ?thesis
    by (auto simp add: lock_order_eq)
qed

theorem lock_order_canonical_witness:
  "find (\<lambda>x. t_idempotency_key x = ''k1'') (transactions (db seed_world)) = None \<and>
   lock_order ALICE_ID TREASURY_ID = (TREASURY_ID, ALICE_ID) \<and>
   lock_order TREASURY_ID ALICE_ID = (TREASURY_ID, ALICE_ID) \<and>
   take 3 (ps_log (snd (transfer ''k1'' ALICE_ID TREASURY_ID gold ''GOLD'' 30 SPEND seed_world)))
     = [SetLockTimeout, TransactionFindUnique ''k1'',
        SelectWalletsForUpdate TREASURY_ID ALICE_ID GOLD_ID] \<and>
   take 3 (ps_log (snd (transfer ''k1'' TREASURY_ID ALICE_ID gold ''GOLD'' 30 TOP_UP seed_world)))
     = [SetLockTimeout, TransactionFindUnique ''k1'',
        SelectWalletsForUpdate TREASURY_ID ALICE_ID GOLD_ID]"
proof -
  have order: "lock_order ALICE_ID TREASURY_ID = (TREASURY_ID, ALICE_ID)"
    "lock_order TREASURY_ID ALICE_ID = (TREASURY_ID, ALICE_ID)"
    by code_simp+
  have log: "ps_log seed_world = []" "a_id gold = GOLD_ID"
    by (simp_all add: seed_world_def gold_def)
  from lock_order_canonical [of ALICE_ID TREASURY_ID "''k1''" seed_world gold "''GOLD''" 30 SPEND]
    seed_no_k1 order(1) log
  have 1: "take 3 (ps_log (snd (transfer ''k1'' ALICE_ID TREASURY_ID gold ''GOLD'' 30 SPEND
      seed_world)))
     = [SetLockTimeout, TransactionFindUnique ''k1'',
        SelectWalletsForUpdate TREASURY_ID ALICE_ID GOLD_ID]"
    by auto
  from lock_order_canonical [of TREASURY_ID ALICE_ID "''k1''" seed_world gold "''GOLD''" 30
      TOP_UP] seed_no_k1 order(2) log
  have 2: "take 3 (ps_log (snd (transfer ''k1'' TREASURY_ID ALICE_ID gold ''GOLD'' 30 TOP_UP
      seed_world)))
     = [SetLockTimeout, TransactionFindUnique ''k1'',
        SelectWalletsForUpdate TREASURY_ID ALICE_ID GOLD_ID]"
    by auto
  from seed_no_k1 order 1 2 show ?thesis by simp
qed

section \<open>Verification: transaction history\<close>

lemma getTransactionHistory_window:
  assumes "getTransactionHistory userId options w = (Inr page, w')"
  shows "\<exists>window.
     those (map (include_wallets (db w))
       (take (nat (limit (h_pagination page)))
          (drop (nat (offset (h_pagination page)))
             (history_rows (db w) userId (o_type options) (o_startDate options)
                (o_endDate options)))))
       = Some window \<and>
     h_transactions page =
       map to_view
         (case o_assetSymbol options of
            None \<Rightarrow> window
          | Some assetSymbol \<Rightarrow>
              if assetSymbol = [] then window else filter (asset_matches assetSymbol) window) \<and>
     limit (h_pagination page) = (case o_limit options of None \<Rightarrow> 50 | Some l \<Rightarrow> l) \<and>
     offset (h_pagination page) = (case o_offset options of None \<Rightarrow> 0 | Some k \<Rightarrow> k) \<and>
     total (h_pagination page)
       = length (history_rows (db w) userId (o_type options) (o_startDate options)
                   (o_endDate options)) \<and>
     returned (h_pagination page) = length (h_transactions page) \<and>
     hasMore (h_pagination page)
       = (offset (h_pagination page) + int (returned (h_pagination page))
            < int (total (h_pagination page)))"
  using assms
  by (auto simp add: getTransactionHistory_def user_findUnique_def transaction_count_def
      transaction_findMany_def log_stmt_def Let_def
      split: option.splits prod.splits sum.splits if_splits)

lemma history_query_page:
  "(let w = history_world;
        page = \<lparr>h_transactions =
                   [\<lparr>v_id = 3, v_idempotencyKey = ''h2'', v_type = SPEND, v_amount = 20,
                     v_assetSymbol = ''GOLD'', v_fromUser = BOB_ID, v_toUser = TREASURY_ID,
                     v_status = ''SUCCESS'', v_createdAt = 2\<rparr>],
                 h_pagination =
                   \<lparr>total = 3, limit = 2, offset = 0, returned = 1, hasMore = True\<rparr>\<rparr>;
        rows = history_rows (db w) TREASURY_ID None None None
    in fst (getTransactionHistory TREASURY_ID history_query w) = Inr page \<and>
       map t_id rows = [6, 3, 0] \<and>
       map t_idempotency_key rows = [''h3'', ''h2'', ''h1''] \<and>
       (\<exists>t \<in> set (drop 2 rows).
          (case include_wallets (db w) t of
             None \<Rightarrow> False
           | Some tx \<Rightarrow> asset_matches ''GOLD'' tx) \<and>
          t_id t \<notin> set (map v_id (h_transactions page))) \<and>
       length (filter (\<lambda>t. case include_wallets (db w) t of
                              None \<Rightarrow> False
                            | Some tx \<Rightarrow> asset_matches ''GOLD'' tx) rows) = 2)"
  by code_simp

text \<open>
  Claim C9. The asset filter of \<open>getTransactionHistory\<close> is applied to the page window, after
  it was cut. For every call that returns a page: the rows of the page are the rows of the
  window, cut by \<open>limit\<close> and \<open>offset\<close> out of the rows the query selects without regard to
  the asset, that pass the asset filter; \<open>total\<close> is the number of the rows selected without
  regard to the asset; \<open>returned\<close> is the number of rows of the page, after the filter; and
  \<open>hasMore\<close> is \<open>offset + returned < total\<close>. And there are a store, a user and a query with an
  asset symbol for which the page holds fewer rows than \<open>limit\<close> although a row that passes
  the filter lies beyond the window and is absent from the page, and for which \<open>total\<close>
  exceeds the number of selected rows that pass the filter.
\<close>

theorem history_filters_asset_after_window:
  "(getTransactionHistory userId options w = (Inr page, w') \<longrightarrow>
      (\<exists>window.
         those (map (include_wallets (db w))
           (take (nat (limit (h_pagination page)))
              (drop (nat (offset (h_pagination page)))
                 (history_rows (db w) userId (o_type options) (o_startDate options)
                    (o_endDate options)))))
           = Some window \<and>
         h_transactions page =
           map to_view
             (case o_assetSymbol options of
                None \<Rightarrow> window
              | Some assetSymbol \<Rightarrow>
                  if assetSymbol = [] then window
                  else filter (asset_matches assetSymbol) window) \<and>
         limit (h_pagination page) = (case o_limit options of None \<Rightarrow> 50 | Some l \<Rightarrow> l) \<and>
         offset (h_pagination page) = (case o_offset options of None \<Rightarrow> 0 | Some k \<Rightarrow> k) \<and>
         total (h_pagination page)
           = length (history_rows (db w) userId (o_type options) (o_startDate options)
                       (o_endDate options)) \<and>
         returned (h_pagination page) = length (h_transactions page) \<and>
         hasMore (h_pagination page)
           = (offset (h_pagination page) + int (returned (h_pagination page))
                < int (total (h_pagination page))))) \<and>
   (\<exists>w userId options assetSymbol page.
      o_assetSymbol options = Some assetSymbol \<and> assetSymbol \<noteq> [] \<and>
      fst (getTransactionHistory userId options w) = Inr page \<and>
      int (length (h_transactions page)) < limit (h_pagination page) \<and>
      (\<exists>t \<in> set (drop (nat (offset (h_pagination page) + limit (h_pagination page)))
                   (history_rows (db w) userId (o_type options) (o_startDate options)
                      (o_endDate options))).
         (case include_wallets (db w) t of
            None \<Rightarrow> False
          | Some tx \<Rightarrow> asset_matches assetSymbol tx) \<and>
         t_id t \<notin> set (map v_id (h_transactions page))) \<and>
      length (filter (\<lambda>t. case include_wallets (db w) t of
                             None \<Rightarrow> False
                           | Some tx \<Rightarrow> asset_matches assetSymbol tx)
                (history_rows (db w) userId (o_type options) (o_startDate options)
                   (o_endDate options)))
        < total (h_pagination page) \<and>
      total (h_pagination page)
        = length (history_rows (db w) userId (o_type options) (o_startDate options)
                    (o_endDate options)) \<and>
      returned (h_pagination page) = length (h_transactions page) \<and>
      hasMore (h_pagination page)
        = (offset (h_pagination page) + int (returned (h_pagination page))
             < int (total (h_pagination page))))"
proof (intro conjI impI)
  assume "getTransactionHistory userId options w = (Inr page, w')"
  then show "\<exists>window.
         those (map (include_wallets (db w))
           (take (nat (limit (h_pagination page)))
              (drop (nat (offset (h_pagination page)))
                 (history_rows (db w) userId (o_type options) (o_startDate options)
                    (o_endDate options)))))
           = Some window \<and>
         h_transactions page =
           map to_view
             (case o_assetSymbol options of
                None \<Rightarrow> window
              | Some assetSymbol \<Rightarrow>
                  if assetSymbol = [] then window
                  else filter (asset_matches assetSymbol) window) \<and>
         limit (h_pagination page) = (case o_limit options of None \<Rightarrow> 50 | Some l \<Rightarrow> l) \<and>
         offset (h_pagination page) = (case o_offset options of None \<Rightarrow> 0 | Some k \<Rightarrow> k) \<and>
         total (h_pagination page)
           = length (history_rows (db w) userId (o_type options) (o_startDate options)
                       (o_endDate options)) \<and>
         returned (h_pagination page) = length (h_transactions page) \<and>
         hasMore (h_pagination page)
           = (offset (h_pagination page) + int (returned (h_pagination page))
                < int (total (h_pagination page)))"
    by (rule getTransactionHistory_window)
next
  let ?page = "\<lparr>h_transactions =
        [\<lparr>v_id = 3, v_idempotencyKey = ''h2'', v_type = SPEND, v_amount = 20,
          v_assetSymbol = ''GOLD'', v_fromUser = BOB_ID, v_toUser = TREASURY_ID,
          v_status = ''SUCCESS'', v_createdAt = 2\<rparr>],
      h_pagination = \<lparr>total = 3, limit = 2, offset = 0, returned = 1, hasMore = True\<rparr>\<rparr>"
  let ?rows = "history_rows (db history_world) TREASURY_ID None None None"
  from history_query_page have
    page: "fst (getTransactionHistory TREASURY_ID history_query history_world) = Inr ?page"
    and ids: "map t_id ?rows = [6, 3, 0]"
    and beyond: "\<exists>t \<in> set (drop 2 ?rows).
          (case include_wallets (db history_world) t of
             None \<Rightarrow> False
           | Some tx \<Rightarrow> asset_matches ''GOLD'' tx) \<and>
          t_id t \<notin> set (map v_id (h_transactions ?page))"
    and matching: "length (filter (\<lambda>t. case include_wallets (db history_world) t of
                              None \<Rightarrow> False
                            | Some tx \<Rightarrow> asset_matches ''GOLD'' tx) ?rows) = 2"
    by (simp_all add: Let_def)
  from ids have len: "length ?rows = 3"
    by (metis length_map list.size(3,4) One_nat_def Suc_eq_plus1 numeral_3_eq_3)
  have "o_assetSymbol history_query = Some ''GOLD'' \<and> ''GOLD'' \<noteq> [] \<and>
      fst (getTransactionHistory TREASURY_ID history_query history_world) = Inr ?page \<and>
      int (length (h_transactions ?page)) < limit (h_pagination ?page) \<and>
      (\<exists>t \<in> set (drop (nat (offset (h_pagination ?page) + limit (h_pagination ?page)))
                   (history_rows (db history_world) TREASURY_ID (o_type history_query)
                      (o_startDate history_query) (o_endDate history_query))).
         (case include_wallets (db history_world) t of
            None \<Rightarrow> False
          | Some tx \<Rightarrow> asset_matches ''GOLD'' tx) \<and>
         t_id t \<notin> set (map v_id (h_transactions ?page))) \<and>
      length (filter (\<lambda>t. case include_wallets (db history_world) t of
                             None \<Rightarrow> False
                           | Some tx \<Rightarrow> asset_matches ''GOLD'' tx)
                (history_rows (db history_world) TREASURY_ID (o_type history_query)
                   (o_startDate history_query) (o_endDate history_query)))
        < total (h_pagination ?page) \<and>
      total (h_pagination ?page)
        = length (history_rows (db history_world) TREASURY_ID (o_type history_query)
                    (o_startDate history_query) (o_endDate history_query)) \<and>
      returned (h_pagination ?page) = length (h_transactions ?page) \<and>
      hasMore (h_pagination ?page)
        = (offset (h_pagination ?page) + int (returned (h_pagination ?page))
             < int (total (h_pagination ?page)))"
    using page beyond matching len by (simp add: history_query_def)
  then show "\<exists>w userId options assetSymbol page.
      o_assetSymbol options = Some assetSymbol \<and> assetSymbol \<noteq> [] \<and>
      fst (getTransactionHistory userId options w) = Inr page \<and>
      int (length (h_transactions page)) < limit (h_pagination page) \<and>
      (\<exists>t \<in> set (drop (nat (offset (h_pagination page) + limit (h_pagination page)))
                   (history_rows (db w) userId (o_type options) (o_startDate options)
                      (o_endDate options))).
         (case include_wallets (db w) t of
            None \<Rightarrow> False
          | Some tx \<Rightarrow> asset_matches assetSymbol tx) \<and>
         t_id t \<notin> set (map v_id (h_transactions page))) \<and>
      length (filter (\<lambda>t. case include_wallets (db w) t of
                             None \<Rightarrow> False
                           | Some tx \<Rightarrow> asset_matches assetSymbol tx)
                (history_rows (db w) userId (o_type options) (o_startDate options)
                   (o_endDate options)))
        < total (h_pagination page) \<and>
      total (h_pagination page)
        = length (history_rows (db w) userId (o_type options) (o_startDate options)
                    (o_endDate options)) \<and>
      returned (h_pagination page) = length (h_transactions page) \<and>
      hasMore (h_pagination page)
        = (offset (h_pagination page) + int (returned (h_pagination page))
             < int (total (h_pagination page)))"
    by blast
qed

text \<open>
  On the state reached by the three transfers, the treasury's history filtered by GOLD with
  a page of two rows: the window holds the DIAMOND bonus and Bob's GOLD spend, the page holds
  the spend alone, and Alice's GOLD top-up, the third row selected, is not reached.
\<close>

theorem history_filters_asset_after_window_witness:
  "fst (getTransactionHistory TREASURY_ID history_query history_world)
     = Inr \<lparr>h_transactions =
              [\<lparr>v_id = 3, v_idempotencyKey = ''h2'', v_type = SPEND, v_amount = 20,
                v_assetSymbol = ''GOLD'', v_fromUser = BOB_ID, v_toUser = TREASURY_ID,
                v_status = ''SUCCESS'', v_createdAt = 2\<rparr>],
            h_pagination =
              \<lparr>total = 3, limit = 2, offset = 0, returned = 1, hasMore = True\<rparr>\<rparr> \<and>
   map t_idempotency_key (history_rows (db history_world) TREASURY_ID None None None)
     = [''h3'', ''h2'', ''h1''] \<and>
   (\<exists>window.
      those (map (include_wallets (db history_world))
        (take 2 (history_rows (db history_world) TREASURY_ID None None None))) = Some window \<and>
      map to_view (filter (asset_matches ''GOLD'') window)
        = [\<lparr>v_id = 3, v_idempotencyKey = ''h2'', v_type = SPEND, v_amount = 20,
            v_assetSymbol = ''GOLD'', v_fromUser = BOB_ID, v_toUser = TREASURY_ID,
            v_status = ''SUCCESS'', v_createdAt = 2\<rparr>]) \<and>
   length (history_rows (db history_world) TREASURY_ID None None None) = 3"
proof -
  let ?page = "\<lparr>h_transactions =
        [\<lparr>v_id = 3, v_idempotencyKey = ''h2'', v_type = SPEND, v_amount = 20,
          v_assetSymbol = ''GOLD'', v_fromUser = BOB_ID, v_toUser = TREASURY_ID,
          v_status = ''SUCCESS'', v_createdAt = 2\<rparr>],
      h_pagination = \<lparr>total = 3, limit = 2, offset = 0, returned = 1, hasMore = True\<rparr>\<rparr>"
  from history_query_page have
    page: "fst (getTransactionHistory TREASURY_ID history_query history_world) = Inr ?page"
    and keys: "map t_idempotency_key (history_rows (db history_world) TREASURY_ID None None None)
                 = [''h3'', ''h2'', ''h1'']"
    by (simp_all add: Let_def)
  then have run: "getTransactionHistory TREASURY_ID history_query history_world
      = (Inr ?page, snd (getTransactionHistory TREASURY_ID history_query history_world))"
    by (simp add: prod_eq_iff)
  from history_filters_asset_after_window [of TREASURY_ID history_query history_world ?page
      "snd (getTransactionHistory TREASURY_ID history_query history_world)"] run
  have "(\<exists>window.
      those (map (include_wallets (db history_world))
        (take 2 (history_rows (db history_world) TREASURY_ID None None None))) = Some window \<and>
      map to_view (filter (asset_matches ''GOLD'') window)
        = [\<lparr>v_id = 3, v_idempotencyKey = ''h2'', v_type = SPEND, v_amount = 20,
            v_assetSymbol = ''GOLD'', v_fromUser = BOB_ID, v_toUser = TREASURY_ID,
            v_status = ''SUCCESS'', v_createdAt = 2\<rparr>]) \<and>
   length (history_rows (db history_world) TREASURY_ID None None None) = 3"
    by (auto simp add: history_query_def)
  with page keys show ?thesis
    by simp
qed

end
